theory Spec2Isabelle
  imports Main
begin

section \<open>Data model\<close>

text \<open>
  The payment core of the application: the webhook receivers of Mercado Pago, Asaas,
  PagSeguro and Pagar.me, the status poll function and the payment creation function, all
  Deno edge functions working on the tables \<^verbatim>\<open>payments\<close>, \<^verbatim>\<open>profiles\<close>,
  \<^verbatim>\<open>subscription_plans\<close> and \<^verbatim>\<open>payment_settings\<close>. The columns of \<^verbatim>\<open>payments\<close> that hold the
  PIX, boleto and card details are written once and read by no handler; they are left out,
  as are the gateway credentials of \<^verbatim>\<open>payment_settings\<close>, which only the adapters and the
  gateway lookups read.

  Identifiers are the text of a UUID column. A \<^verbatim>\<open>DATE\<close> column is the number of the day
  since the epoch. A JavaScript \<^verbatim>\<open>Date\<close> is a time value, the number of milliseconds since
  the epoch, of magnitude at most \<open>maxTime\<close>, or it is invalid (\<open>None\<close>). The edge
  runtime's local time zone is UTC, so that \<^verbatim>\<open>setDate(getDate() + n)\<close> moves a date by \<open>n\<close>
  whole days. The five statuses are the values of \<^verbatim>\<open>PaymentStatus\<close>; the column holds no
  other text.

  An \<^verbatim>\<open>update\<close> is taken to succeed, also when the date it writes lies outside the years
  0001 to 9999; a handler reads the clock once.
\<close>

type_synonym uuid = string
type_synonym instant = int
type_synonym day = int
type_synonym jsdate = "instant option"

datatype PaymentStatus = Pending | Approved | Rejected | Expired | Refunded

record Profile =
  pf_id :: uuid
  pf_role :: string
  pf_full_name :: string
  pf_email :: "string option"
  pf_phone :: "string option"
  plan_start_date :: "day option"
  plan_end_date :: "day option"
  is_active :: bool

record SubscriptionPlan =
  sp_id :: uuid
  sp_name :: string
  duration_days :: int
  price_cents :: int
  sp_is_active :: bool

section \<open>JSON values\<close>

text \<open>
  A body after \<^verbatim>\<open>req.json()\<close> or \<^verbatim>\<open>response.json()\<close>. A number is given by the text that
  \<^verbatim>\<open>String(n)\<close> produces for it (\<^verbatim>\<open>"0"\<close> for both zeros), which is all the handlers observe
  of a number. An object keeps its members in document order; \<^verbatim>\<open>JSON.parse\<close> lets the last
  of several equal keys win.
\<close>

datatype json =
    JNull
  | JBool bool
  | JNum string
  | JStr string
  | JArr "json list"
  | JObj "(string \<times> json) list"

datatype js_error = SyntaxError | TypeError | RangeError

record Payment =
  pay_id :: uuid
  owner_id :: uuid
  client_id :: "uuid option"
  plan_id :: "uuid option"
  gateway :: string
  gateway_payment_id :: "string option"
  amount_cents :: int
  payment_method :: string
  status :: PaymentStatus
  customer_email :: string
  customer_name :: string
  customer_phone :: "string option"
  paid_at :: "instant option"
  webhook_data :: "json option"

record PaymentSettings =
  ps_owner_id :: uuid
  active_gateway :: string
  pix_enabled :: bool
  boleto_enabled :: bool
  credit_card_enabled :: bool

text \<open>
  What a handler does to the outside, in the order it does it: every \<^verbatim>\<open>update\<close> of a
  payment's status, every entry into \<^verbatim>\<open>handlePaymentApproved\<close>, every status lookup at a
  gateway, every call of a gateway adapter, every \<^verbatim>\<open>insert\<close> of a payment row, every
  account created at the authentication service and every mail handed to \<^verbatim>\<open>send-email\<close>.
\<close>

datatype effect =
    StatusWrite uuid PaymentStatus
  | ProvisioningInvoked uuid
  | GatewayStatusLookup string string
  | GatewayCharge string
  | PaymentInserted Payment
  | AuthUserCreated string uuid
  | WelcomeEmail string string string "day option"

record world =
  payments :: "Payment list"
  profiles :: "Profile list"
  subscription_plans :: "SubscriptionPlan list"
  payment_settings :: "PaymentSettings list"
  trace :: "effect list"

text \<open>
  The answer of a gateway adapter (\<^verbatim>\<open>createMercadoPagoPayment\<close>, \<^verbatim>\<open>createAsaasPayment\<close>,
  \<^verbatim>\<open>createPagSeguroPayment\<close>, \<^verbatim>\<open>createPagarmePayment\<close>): it throws, or it returns
  \<^verbatim>\<open>{ error }\<close> with a message that is never empty, or it returns the gateway's identifier
  of the charge with the status that the adapter's \<^verbatim>\<open>map...Status\<close> gave. The adapters
  themselves, which talk to the gateways, are not modelled: a call of an adapter is
  recorded in the trace and answered by the environment.
\<close>

record ChargeResult =
  cr_gateway_payment_id :: "string option"
  cr_status :: PaymentStatus

datatype adapter_answer =
    AdapterThrew js_error
  | AdapterError string
  | Charged ChargeResult

text \<open>
  What a handler reads from the outside during one invocation:
  \<^item> \<open>now\<close>, the clock, a valid time value;
  \<^item> \<open>generatePassword\<close>, the random password;
  \<^item> \<open>createUser\<close>, the answer of the authentication service for an email (\<open>None\<close> is
    \<^verbatim>\<open>authError\<close>);
  \<^item> \<open>mercadopago_get\<close> and \<open>asaas_get\<close>, the parsed answer of the gateway's payment lookup
    for an identifier (\<open>None\<close> when \<^verbatim>\<open>fetch\<close> or \<^verbatim>\<open>response.json()\<close> rejects);
  \<^item> \<open>createCharge\<close>, the answer of the adapter of a gateway;
  \<^item> \<open>new_payment_id\<close>, the identifier the database gives the inserted payment row
    (\<open>None\<close> when the \<^verbatim>\<open>insert\<close> returns an error);
  \<^item> \<open>toLowerCase\<close>, the runtime's \<^verbatim>\<open>String.prototype.toLowerCase\<close>;
  \<^item> \<open>legacy_date\<close>, what \<^verbatim>\<open>new Date(text)\<close> makes of the text of a \<^verbatim>\<open>DATE\<close> outside the
    years 0001 to 9999, which is not in the ISO format and is left to the implementation;
  \<^item> \<open>text_of_json\<close>, the text the database stores in a text column for a JSON value
    that is not a string.
\<close>

record env =
  now :: instant
  generatePassword :: string
  createUser :: "string \<Rightarrow> uuid option"
  mercadopago_get :: "string \<Rightarrow> json option"
  asaas_get :: "string \<Rightarrow> json option"
  createCharge :: "string \<Rightarrow> adapter_answer"
  new_payment_id :: "uuid option"
  toLowerCase :: "string \<Rightarrow> string"
  legacy_date :: "day \<Rightarrow> instant option"
  text_of_json :: "json \<Rightarrow> string"

section \<open>Queries\<close>

text \<open>
  \<^verbatim>\<open>.single()\<close> and \<^verbatim>\<open>.maybeSingle()\<close>: \<^verbatim>\<open>data\<close> is the row when exactly one row matches,
  and \<^verbatim>\<open>null\<close> otherwise (with or without \<^verbatim>\<open>error\<close>; every caller treats both alike).
\<close>

definition single :: "'a list \<Rightarrow> 'a option" where
  "single rows = (case rows of [r] \<Rightarrow> Some r | _ \<Rightarrow> None)"

definition update_where :: "('a \<Rightarrow> bool) \<Rightarrow> ('a \<Rightarrow> 'a) \<Rightarrow> 'a list \<Rightarrow> 'a list" where
  "update_where P f rows = map (\<lambda>r. if P r then f r else r) rows"

section \<open>Dates\<close>

definition ms_per_day :: int where
  "ms_per_day = 86400000"

definition maxTime :: int where
  "maxTime = 8640000000000000"

definition timeClip :: "int \<Rightarrow> jsdate" where
  "timeClip t = (if \<bar>t\<bar> \<le> maxTime then Some t else None)"

definition iso_day :: "day \<Rightarrow> bool" where
  \<comment> \<open>the days from 0001-01-01 to 9999-12-31, whose text is \<^verbatim>\<open>YYYY-MM-DD\<close>\<close>
  "iso_day d \<longleftrightarrow> - 719162 \<le> d \<and> d \<le> 2932896"

definition of_date :: "env \<Rightarrow> day \<Rightarrow> jsdate" where
  \<comment> \<open>\<^verbatim>\<open>new Date(text)\<close> for the text of a \<^verbatim>\<open>DATE\<close>: midnight UTC of the day for
      \<^verbatim>\<open>YYYY-MM-DD\<close>\<close>
  "of_date e d =
     (if iso_day d then Some (d * ms_per_day)
      else case legacy_date e d of None \<Rightarrow> None | Some t \<Rightarrow> timeClip t)"

definition addDays :: "jsdate \<Rightarrow> int \<Rightarrow> jsdate" where
  \<comment> \<open>\<^verbatim>\<open>t.setDate(t.getDate() + n)\<close>; the result is invalid when it leaves the range of
      time values\<close>
  "addDays t n = (case t of None \<Rightarrow> None | Some x \<Rightarrow> timeClip (x + n * ms_per_day))"

definition later :: "jsdate \<Rightarrow> jsdate \<Rightarrow> bool" where
  \<comment> \<open>\<^verbatim>\<open>a > b\<close> on dates; false when either is invalid\<close>
  "later a b = (case a of None \<Rightarrow> False | Some x \<Rightarrow> (case b of None \<Rightarrow> False | Some y \<Rightarrow> x > y))"

definition isoDate :: "jsdate \<Rightarrow> js_error + day" where
  \<comment> \<open>\<^verbatim>\<open>t.toISOString().split('T')[0]\<close>; \<^verbatim>\<open>toISOString\<close> throws on an invalid date\<close>
  "isoDate t = (case t of None \<Rightarrow> Inl RangeError | Some x \<Rightarrow> Inr (x div ms_per_day))"

definition localeDate :: "jsdate \<Rightarrow> day option" where
  \<comment> \<open>\<^verbatim>\<open>t.toLocaleDateString('pt-BR')\<close>, which does not throw\<close>
  "localeDate t = map_option (\<lambda>x. x div ms_per_day) t"

section \<open>JavaScript operations on parsed bodies\<close>

fun truthy :: "json option \<Rightarrow> bool" where
  "truthy None = False"
| "truthy (Some JNull) = False"
| "truthy (Some (JBool b)) = b"
| "truthy (Some (JNum n)) = (n \<noteq> ''0'')"
| "truthy (Some (JStr s)) = (s \<noteq> [])"
| "truthy (Some (JArr xs)) = True"
| "truthy (Some (JObj kvs)) = True"

definition own :: "(string \<times> json) list \<Rightarrow> string \<Rightarrow> json option" where
  "own kvs k = map_of (rev kvs) k"

text \<open>
  \<^verbatim>\<open>v.k\<close> for the member names the handlers read (\<^verbatim>\<open>id\<close>, \<^verbatim>\<open>status\<close>, \<^verbatim>\<open>type\<close>, \<^verbatim>\<open>action\<close>,
  \<^verbatim>\<open>data\<close>, \<^verbatim>\<open>event\<close>, \<^verbatim>\<open>payment\<close>, \<^verbatim>\<open>charges\<close>, \<^verbatim>\<open>qr_codes\<close>, \<^verbatim>\<open>payment_id\<close>, \<^verbatim>\<open>owner_id\<close>,
  \<^verbatim>\<open>plan_id\<close>, \<^verbatim>\<open>payment_method\<close>, \<^verbatim>\<open>customer\<close>, \<^verbatim>\<open>card\<close>, \<^verbatim>\<open>email\<close>, \<^verbatim>\<open>name\<close>, \<^verbatim>\<open>phone\<close>,
  \<^verbatim>\<open>number\<close>), none of which a prototype provides: a \<^verbatim>\<open>TypeError\<close> on \<^verbatim>\<open>null\<close>,
  \<^verbatim>\<open>undefined\<close> (here \<open>None\<close>) on every value that is not an object with that member.
\<close>

fun js_member :: "json \<Rightarrow> string \<Rightarrow> js_error + json option" where
  "js_member JNull k = Inl TypeError"
| "js_member (JObj kvs) k = Inr (own kvs k)"
| "js_member v k = Inr None"

fun opt_member :: "json option \<Rightarrow> string \<Rightarrow> json option" where
  \<comment> \<open>\<^verbatim>\<open>v?.k\<close>\<close>
  "opt_member (Some (JObj kvs)) k = own kvs k"
| "opt_member v k = None"

fun opt_first :: "json option \<Rightarrow> json option" where
  \<comment> \<open>\<^verbatim>\<open>v?.[0]\<close>\<close>
  "opt_first (Some (JArr (x # xs))) = Some x"
| "opt_first (Some (JStr (c # cs))) = Some (JStr [c])"
| "opt_first (Some (JObj kvs)) = own kvs ''0''"
| "opt_first v = None"

fun js_iterate :: "json \<Rightarrow> js_error + json list" where
  \<comment> \<open>the values \<^verbatim>\<open>for (const x of v)\<close> runs through\<close>
  "js_iterate (JArr xs) = Inr xs"
| "js_iterate (JStr s) = Inr (map (\<lambda>c. JStr [c]) s)"
| "js_iterate v = Inl TypeError"

text \<open>
  \<^verbatim>\<open>String(v)\<close> and \<^verbatim>\<open>v.toString()\<close>; the first is what the query builder's
  \<^verbatim>\<open>.eq(column, v)\<close> puts into the request. An object that has a member \<^verbatim>\<open>toString\<close> of its
  own (never a function, after \<^verbatim>\<open>JSON.parse\<close>) cannot be converted.
\<close>

fun toString :: "json \<Rightarrow> js_error + string"
  and join :: "json list \<Rightarrow> js_error + string" where
  "toString JNull = Inr ''null''"
| "toString (JBool b) = Inr (if b then ''true'' else ''false'')"
| "toString (JNum n) = Inr n"
| "toString (JStr s) = Inr s"
| "toString (JArr xs) = join xs"
| "toString (JObj kvs) =
     (if ''toString'' \<in> set (map fst kvs) then Inl TypeError else Inr ''[object Object]'')"
| "join [] = Inr []"
| "join (x # xs) =
     (case (if x = JNull then Inr [] else toString x) of
        Inl err \<Rightarrow> Inl err
      | Inr s \<Rightarrow>
          (if xs = [] then Inr s
           else case join xs of Inl err \<Rightarrow> Inl err | Inr t \<Rightarrow> Inr (s @ '','' @ t)))"

section \<open>Responses\<close>

datatype body =
    Text string
  | ErrorJson string
  | StatusJson PaymentStatus "instant option"
  | CreatedJson uuid PaymentStatus

datatype response = Response nat body

datatype http_request = OPTIONS | POST "json option"

text \<open>
  A handler's \<^verbatim>\<open>try\<close> block either throws, leaving the state as it is at that moment, or
  returns a response. The \<^verbatim>\<open>catch\<close> of a webhook receiver answers \<^verbatim>\<open>Error\<close> with status 500;
  the \<^verbatim>\<open>catch\<close> of the poll and of the payment creation answers 500 with a JSON error.
\<close>

type_synonym attempt = "js_error \<times> world + response \<times> world"

definition respond :: "attempt \<Rightarrow> response \<times> world" where
  "respond r =
     (case r of Inl (err, w) \<Rightarrow> (Response 500 (Text ''Error''), w) | Inr x \<Rightarrow> x)"

definition json_error :: "attempt \<Rightarrow> response \<times> world" where
  "json_error r =
     (case r of
        Inl (err, w) \<Rightarrow> (Response 500 (ErrorJson ''Erro interno do servidor''), w)
      | Inr x \<Rightarrow> x)"

section \<open>Provisioning: handlePaymentApproved\<close>

text \<open>
  \<open>provision\<close> is the body that every copy of \<^verbatim>\<open>handlePaymentApproved\<close> has after it holds
  the plan; \<open>renewalEndDate\<close> is the computation of \<^verbatim>\<open>newEndDate\<close> in its renewal branch.
  The function throws where \<^verbatim>\<open>toISOString\<close> meets an invalid date: before the \<^verbatim>\<open>update\<close> of
  the profile in the first two branches, and after \<^verbatim>\<open>createUser\<close> but before the \<^verbatim>\<open>insert\<close>
  of the profile in the third.
\<close>

definition renewalEndDate :: "env \<Rightarrow> jsdate \<Rightarrow> SubscriptionPlan \<Rightarrow> Profile option \<Rightarrow> jsdate" where
  "renewalEndDate e today plan existingProfile =
     (let planEndDate = addDays today (duration_days plan) in
      case existingProfile of
        None \<Rightarrow> planEndDate
      | Some pr \<Rightarrow>
          (case plan_end_date pr of
             None \<Rightarrow> planEndDate
           | Some d \<Rightarrow>
               (let currentEnd = of_date e d in
                if later currentEnd today then addDays currentEnd (duration_days plan)
                else planEndDate)))"

definition link_payment :: "uuid \<Rightarrow> uuid \<Rightarrow> world \<Rightarrow> world" where
  \<comment> \<open>\<^verbatim>\<open>from('payments').update({ client_id }).eq('id', payment.id)\<close>\<close>
  "link_payment pid cid w =
     w\<lparr>payments := update_where (\<lambda>p. pay_id p = pid) (\<lambda>p. p\<lparr>client_id := Some cid\<rparr>) (payments w)\<rparr>"

definition set_plan_end :: "uuid \<Rightarrow> day \<Rightarrow> world \<Rightarrow> world" where
  \<comment> \<open>\<^verbatim>\<open>from('profiles').update({ plan_end_date, is_active: true }).eq('id', id)\<close>\<close>
  "set_plan_end cid d w =
     w\<lparr>profiles := update_where (\<lambda>r. pf_id r = cid)
        (\<lambda>r. r\<lparr>plan_end_date := Some d, is_active := True\<rparr>) (profiles w)\<rparr>"

definition provision ::
  "env \<Rightarrow> Payment \<Rightarrow> SubscriptionPlan \<Rightarrow> world \<Rightarrow> js_error option \<times> world" where
  "provision e payment plan w =
     (let today = Some (now e);
          planEndDate = addDays today (duration_days plan) in
      case client_id payment of
        Some cid \<Rightarrow>
          (let existingProfile = single (filter (\<lambda>r. pf_id r = cid) (profiles w));
               newEndDate = renewalEndDate e today plan existingProfile
           in case isoDate newEndDate of
                Inl err \<Rightarrow> (Some err, w)
              | Inr d \<Rightarrow> (None, set_plan_end cid d w))
      | None \<Rightarrow>
          (case single (filter (\<lambda>r. pf_email r = Some (customer_email payment)) (profiles w)) of
             Some existingUser \<Rightarrow>
               (case isoDate planEndDate of
                  Inl err \<Rightarrow> (Some err, w)
                | Inr d \<Rightarrow>
                    (None, link_payment (pay_id payment) (pf_id existingUser)
                             (set_plan_end (pf_id existingUser) d w)))
           | None \<Rightarrow>
               (let password = generatePassword e in
                case createUser e (customer_email payment) of
                  None \<Rightarrow> (None, w)
                | Some uid \<Rightarrow>
                    (let w1 = w\<lparr>trace := trace w @ [AuthUserCreated (customer_email payment) uid]\<rparr>
                     in case isoDate today of
                          Inl err \<Rightarrow> (Some err, w1)
                        | Inr start \<Rightarrow>
                            (case isoDate planEndDate of
                               Inl err \<Rightarrow> (Some err, w1)
                             | Inr d \<Rightarrow>
                                 (let w2 = w1\<lparr>profiles := profiles w1 @
                                             [\<lparr>pf_id = uid, pf_role = ''client'',
                                               pf_full_name = customer_name payment,
                                               pf_email = Some (customer_email payment),
                                               pf_phone = customer_phone payment,
                                               plan_start_date = Some start,
                                               plan_end_date = Some d,
                                               is_active = True\<rparr>]\<rparr>;
                                      w3 = link_payment (pay_id payment) uid w2
                                  in (None,
                                      w3\<lparr>trace := trace w3 @
                                         [WelcomeEmail (customer_email payment) password
                                            (sp_name plan) (localeDate planEndDate)]\<rparr>)))))))"

text \<open>
  \<^verbatim>\<open>handlePaymentApproved(supabase, payment)\<close> of the webhook receivers reads the plan of
  the payment first and does nothing when there is none;
  \<^verbatim>\<open>handlePaymentApproved(supabase, payment, plan)\<close> of the payment creation function is
  given the plan.
\<close>

definition handlePaymentApproved :: "env \<Rightarrow> Payment \<Rightarrow> world \<Rightarrow> js_error option \<times> world" where
  "handlePaymentApproved e payment w0 =
     (let w = w0\<lparr>trace := trace w0 @ [ProvisioningInvoked (pay_id payment)]\<rparr> in
      case (case plan_id payment of
              None \<Rightarrow> None
            | Some pl \<Rightarrow> single (filter (\<lambda>s. sp_id s = pl) (subscription_plans w))) of
        None \<Rightarrow> (None, w)
      | Some plan \<Rightarrow> provision e payment plan w)"

definition handlePaymentApproved3 ::
  "env \<Rightarrow> Payment \<Rightarrow> SubscriptionPlan \<Rightarrow> world \<Rightarrow> js_error option \<times> world" where
  "handlePaymentApproved3 e payment plan w0 =
     provision e payment plan (w0\<lparr>trace := trace w0 @ [ProvisioningInvoked (pay_id payment)]\<rparr>)"

section \<open>Webhook receivers\<close>

definition find_payment :: "string \<Rightarrow> string \<Rightarrow> world \<Rightarrow> Payment option" where
  \<comment> \<open>\<^verbatim>\<open>.eq('gateway_payment_id', id).eq('gateway', gw).maybeSingle()\<close>\<close>
  "find_payment gw gid w =
     single (filter (\<lambda>p. gateway_payment_id p = Some gid \<and> gateway p = gw) (payments w))"

definition writeStatus :: "env \<Rightarrow> uuid \<Rightarrow> PaymentStatus \<Rightarrow> json option \<Rightarrow> world \<Rightarrow> world" where
  \<comment> \<open>\<^verbatim>\<open>from('payments').update(updateData).eq('id', id)\<close>; the poll's \<^verbatim>\<open>updateData\<close> has no
      \<^verbatim>\<open>webhook_data\<close>\<close>
  "writeStatus e pid newStatus data w =
     w\<lparr>payments := update_where (\<lambda>p. pay_id p = pid)
          (\<lambda>p. p\<lparr>status := newStatus,
                 webhook_data := (case data of None \<Rightarrow> webhook_data p | Some d \<Rightarrow> Some d),
                 paid_at := (if newStatus = Approved then Some (now e) else paid_at p)\<rparr>)
          (payments w),
       trace := trace w @ [StatusWrite pid newStatus]\<rparr>"

text \<open>
  The end of each receiver, the same text in all of them: nothing when the mapped status
  is the stored one, otherwise the update and, for \<^verbatim>\<open>approved\<close>,
  \<^verbatim>\<open>handlePaymentApproved\<close> on the row as it was read. When \<^verbatim>\<open>handlePaymentApproved\<close> throws,
  the status is written already.
\<close>

definition applyWebhookStatus ::
  "env \<Rightarrow> Payment \<Rightarrow> PaymentStatus \<Rightarrow> json \<Rightarrow> world \<Rightarrow> attempt" where
  "applyWebhookStatus e dbPayment newStatus data w =
     (if newStatus = status dbPayment then Inr (Response 200 (Text ''OK''), w)
      else
        (let w1 = writeStatus e (pay_id dbPayment) newStatus (Some data) w
         in if newStatus = Approved
            then (case handlePaymentApproved e dbPayment w1 of
                    (Some err, w2) \<Rightarrow> Inl (err, w2)
                  | (None, w2) \<Rightarrow> Inr (Response 200 (Text ''OK''), w2))
            else Inr (Response 200 (Text ''OK''), w1)))"

subsection \<open>PagSeguro\<close>

fun chargeLoop :: "json list \<Rightarrow> PaymentStatus \<Rightarrow> js_error + PaymentStatus" where
  "chargeLoop [] newStatus = Inr newStatus"
| "chargeLoop (charge # cs) newStatus =
     (case js_member charge ''status'' of
        Inl err \<Rightarrow> Inl err
      | Inr st \<Rightarrow>
          (if st = Some (JStr ''PAID'') then Inr Approved
           else if st = Some (JStr ''DECLINED'') \<or> st = Some (JStr ''CANCELED'')
           then chargeLoop cs Rejected
           else chargeLoop cs newStatus))"

definition pagseguro_newStatus :: "json \<Rightarrow> json \<Rightarrow> PaymentStatus \<Rightarrow> js_error + PaymentStatus" where
  "pagseguro_newStatus body charges stored =
     (case js_iterate charges of
        Inl err \<Rightarrow> Inl err
      | Inr cs \<Rightarrow>
          (case chargeLoop cs stored of
             Inl err \<Rightarrow> Inl err
           | Inr s \<Rightarrow>
               Inr (if opt_member (opt_first (opt_member (Some body) ''qr_codes'')) ''status''
                       = Some (JStr ''PAID'')
                    then Approved else s)))"

definition chargesOf :: "json \<Rightarrow> json" where
  \<comment> \<open>\<^verbatim>\<open>body.charges || []\<close>\<close>
  "chargesOf body =
     (case opt_member (Some body) ''charges'' of
        None \<Rightarrow> JArr []
      | Some c \<Rightarrow> if truthy (Some c) then c else JArr [])"

definition webhook_pagseguro_try :: "env \<Rightarrow> json option \<Rightarrow> world \<Rightarrow> attempt" where
  "webhook_pagseguro_try e payload w =
     (case payload of
        None \<Rightarrow> Inl (SyntaxError, w)
      | Some body \<Rightarrow>
          (case js_member body ''id'' of
             Inl err \<Rightarrow> Inl (err, w)
           | Inr orderId \<Rightarrow>
               (let charges = chargesOf body
                in case orderId of
                     None \<Rightarrow> Inr (Response 200 (Text ''OK''), w)
                   | Some oid \<Rightarrow>
                       (if \<not> truthy (Some oid) then Inr (Response 200 (Text ''OK''), w)
                        else case toString oid of
                          Inl err \<Rightarrow> Inl (err, w)
                        | Inr key \<Rightarrow>
                            (case find_payment ''pagseguro'' key w of
                               None \<Rightarrow> Inr (Response 200 (Text ''OK''), w)
                             | Some dbPayment \<Rightarrow>
                                 (case pagseguro_newStatus body charges (status dbPayment) of
                                    Inl err \<Rightarrow> Inl (err, w)
                                  | Inr newStatus \<Rightarrow>
                                      applyWebhookStatus e dbPayment newStatus body w))))))"

definition webhook_pagseguro :: "env \<Rightarrow> http_request \<Rightarrow> world \<Rightarrow> response \<times> world" where
  "webhook_pagseguro e req w =
     (case req of
        OPTIONS \<Rightarrow> (Response 200 (Text ''ok''), w)
      | POST payload \<Rightarrow> respond (webhook_pagseguro_try e payload w))"

subsection \<open>Pagar.me\<close>

definition relevantEvents :: "string list" where
  "relevantEvents =
     [''order.paid'', ''order.payment_failed'', ''order.canceled'',
      ''charge.paid'', ''charge.payment_failed'', ''charge.refunded'']"

definition pagarme_newStatus :: "string \<Rightarrow> PaymentStatus \<Rightarrow> PaymentStatus" where
  "pagarme_newStatus eventType stored =
     (if eventType = ''order.paid'' \<or> eventType = ''charge.paid'' then Approved
      else if eventType = ''order.payment_failed'' \<or> eventType = ''charge.payment_failed''
      then Rejected
      else if eventType = ''order.canceled'' then Rejected
      else if eventType = ''charge.refunded'' then Refunded
      else stored)"

definition webhook_pagarme_try :: "env \<Rightarrow> json option \<Rightarrow> world \<Rightarrow> attempt" where
  "webhook_pagarme_try e payload w =
     (case payload of
        None \<Rightarrow> Inl (SyntaxError, w)
      | Some body \<Rightarrow>
          (case js_member body ''type'' of
             Inl err \<Rightarrow> Inl (err, w)
           | Inr eventType \<Rightarrow>
               (let data = opt_member (Some body) ''data'' in
                if \<not> truthy (opt_member data ''id'') then Inr (Response 200 (Text ''OK''), w)
                else case eventType of
                  Some (JStr ev) \<Rightarrow>
                    (if ev \<notin> set relevantEvents then Inr (Response 200 (Text ''OK''), w)
                     else case opt_member data ''id'' of
                       None \<Rightarrow> Inr (Response 200 (Text ''OK''), w)
                     | Some orderId \<Rightarrow>
                         (case toString orderId of
                            Inl err \<Rightarrow> Inl (err, w)
                          | Inr key \<Rightarrow>
                              (case find_payment ''pagarme'' key w of
                                 None \<Rightarrow> Inr (Response 200 (Text ''OK''), w)
                               | Some dbPayment \<Rightarrow>
                                   applyWebhookStatus e dbPayment
                                     (pagarme_newStatus ev (status dbPayment)) body w)))
                | _ \<Rightarrow> Inr (Response 200 (Text ''OK''), w))))"

definition webhook_pagarme :: "env \<Rightarrow> http_request \<Rightarrow> world \<Rightarrow> response \<times> world" where
  "webhook_pagarme e req w =
     (case req of
        OPTIONS \<Rightarrow> (Response 200 (Text ''ok''), w)
      | POST payload \<Rightarrow> respond (webhook_pagarme_try e payload w))"

subsection \<open>Asaas\<close>

definition paymentEvents :: "string list" where
  "paymentEvents =
     [''PAYMENT_CONFIRMED'', ''PAYMENT_RECEIVED'', ''PAYMENT_OVERDUE'',
      ''PAYMENT_DELETED'', ''PAYMENT_REFUNDED'']"

definition asaas_newStatus :: "string \<Rightarrow> PaymentStatus \<Rightarrow> PaymentStatus" where
  "asaas_newStatus event stored =
     (if event = ''PAYMENT_CONFIRMED'' \<or> event = ''PAYMENT_RECEIVED'' then Approved
      else if event = ''PAYMENT_OVERDUE'' then Expired
      else if event = ''PAYMENT_DELETED'' then Rejected
      else if event = ''PAYMENT_REFUNDED'' then Refunded
      else stored)"

definition webhook_asaas_try :: "env \<Rightarrow> json option \<Rightarrow> world \<Rightarrow> attempt" where
  "webhook_asaas_try e payload w =
     (case payload of
        None \<Rightarrow> Inl (SyntaxError, w)
      | Some body \<Rightarrow>
          (case js_member body ''event'' of
             Inl err \<Rightarrow> Inl (err, w)
           | Inr event \<Rightarrow>
               (let payment = opt_member (Some body) ''payment'' in
                if \<not> truthy (opt_member payment ''id'') then Inr (Response 200 (Text ''OK''), w)
                else case event of
                  Some (JStr ev) \<Rightarrow>
                    (if ev \<notin> set paymentEvents then Inr (Response 200 (Text ''OK''), w)
                     else case opt_member payment ''id'' of
                       None \<Rightarrow> Inr (Response 200 (Text ''OK''), w)
                     | Some pid \<Rightarrow>
                         (case toString pid of
                            Inl err \<Rightarrow> Inl (err, w)
                          | Inr key \<Rightarrow>
                              (case find_payment ''asaas'' key w of
                                 None \<Rightarrow> Inr (Response 200 (Text ''OK''), w)
                               | Some dbPayment \<Rightarrow>
                                   applyWebhookStatus e dbPayment
                                     (asaas_newStatus ev (status dbPayment)) body w)))
                | _ \<Rightarrow> Inr (Response 200 (Text ''OK''), w))))"

definition webhook_asaas :: "env \<Rightarrow> http_request \<Rightarrow> world \<Rightarrow> response \<times> world" where
  "webhook_asaas e req w =
     (case req of
        OPTIONS \<Rightarrow> (Response 200 (Text ''ok''), w)
      | POST payload \<Rightarrow> respond (webhook_asaas_try e payload w))"

subsection \<open>Mercado Pago\<close>

text \<open>
  This receiver is told only which payment changed and asks the gateway for it; the status
  it maps is the one in the gateway's answer, and the answer is what it stores as
  \<^verbatim>\<open>webhook_data\<close>. Its select of the payment embeds the owner's settings for the access
  token, which only the gateway sees; the select is taken to resolve.
\<close>

definition mercadopago_newStatus :: "json option \<Rightarrow> PaymentStatus \<Rightarrow> PaymentStatus" where
  "mercadopago_newStatus st stored =
     (if st = Some (JStr ''approved'') then Approved
      else if st = Some (JStr ''pending'') \<or> st = Some (JStr ''in_process'')
              \<or> st = Some (JStr ''authorized'') then Pending
      else if st = Some (JStr ''rejected'') \<or> st = Some (JStr ''cancelled'') then Rejected
      else if st = Some (JStr ''refunded'') \<or> st = Some (JStr ''charged_back'') then Refunded
      else stored)"

definition webhook_mercadopago_try :: "env \<Rightarrow> json option \<Rightarrow> world \<Rightarrow> attempt" where
  "webhook_mercadopago_try e payload w =
     (case payload of
        None \<Rightarrow> Inl (SyntaxError, w)
      | Some body \<Rightarrow>
          (case js_member body ''type'' of
             Inl err \<Rightarrow> Inl (err, w)
           | Inr ty \<Rightarrow>
               (if ty \<noteq> Some (JStr ''payment'')
                   \<and> opt_member (Some body) ''action'' \<noteq> Some (JStr ''payment.created'')
                   \<and> opt_member (Some body) ''action'' \<noteq> Some (JStr ''payment.updated'')
                then Inr (Response 200 (Text ''OK''), w)
                else case opt_member (opt_member (Some body) ''data'') ''id'' of
                  None \<Rightarrow> Inr (Response 200 (Text ''OK''), w)
                | Some paymentId \<Rightarrow>
                    (if \<not> truthy (Some paymentId) then Inr (Response 200 (Text ''OK''), w)
                     else case toString paymentId of
                       Inl err \<Rightarrow> Inl (err, w)
                     | Inr key \<Rightarrow>
                         (case find_payment ''mercado_pago'' key w of
                            None \<Rightarrow> Inr (Response 200 (Text ''OK''), w)
                          | Some payment \<Rightarrow>
                              (let w1 = w\<lparr>trace := trace w @
                                          [GatewayStatusLookup ''mercado_pago'' key]\<rparr>
                               in case mercadopago_get e key of
                                    None \<Rightarrow> Inl (TypeError, w1)
                                  | Some mpPayment \<Rightarrow>
                                      (case js_member mpPayment ''status'' of
                                         Inl err \<Rightarrow> Inl (err, w1)
                                       | Inr st \<Rightarrow>
                                           applyWebhookStatus e payment
                                             (mercadopago_newStatus st (status payment))
                                             mpPayment w1)))))))"

definition webhook_mercadopago :: "env \<Rightarrow> http_request \<Rightarrow> world \<Rightarrow> response \<times> world" where
  "webhook_mercadopago e req w =
     (case req of
        OPTIONS \<Rightarrow> (Response 200 (Text ''ok''), w)
      | POST payload \<Rightarrow> respond (webhook_mercadopago_try e payload w))"

section \<open>Status poll\<close>

definition mapMercadoPagoLookup :: "json option \<Rightarrow> PaymentStatus" where
  "mapMercadoPagoLookup st =
     (if st = Some (JStr ''approved'') then Approved
      else if st = Some (JStr ''pending'') \<or> st = Some (JStr ''in_process'')
              \<or> st = Some (JStr ''authorized'') then Pending
      else if st = Some (JStr ''rejected'') \<or> st = Some (JStr ''cancelled'') then Rejected
      else if st = Some (JStr ''refunded'') \<or> st = Some (JStr ''charged_back'') then Refunded
      else Pending)"

definition checkMercadoPagoStatus :: "env \<Rightarrow> string \<Rightarrow> PaymentStatus" where
  "checkMercadoPagoStatus e gatewayPaymentId =
     (case mercadopago_get e gatewayPaymentId of
        None \<Rightarrow> Pending
      | Some data \<Rightarrow>
          (case js_member data ''status'' of
             Inl err \<Rightarrow> Pending
           | Inr st \<Rightarrow> mapMercadoPagoLookup st))"

definition mapAsaasLookup :: "json option \<Rightarrow> PaymentStatus" where
  "mapAsaasLookup st =
     (if st = Some (JStr ''RECEIVED'') \<or> st = Some (JStr ''CONFIRMED'') then Approved
      else if st = Some (JStr ''PENDING'') \<or> st = Some (JStr ''AWAITING_RISK_ANALYSIS'')
      then Pending
      else if st = Some (JStr ''OVERDUE'') then Expired
      else if st = Some (JStr ''REFUNDED'') \<or> st = Some (JStr ''REFUND_REQUESTED'')
      then Refunded
      else Rejected)"

definition checkAsaasStatus :: "env \<Rightarrow> string \<Rightarrow> PaymentStatus" where
  "checkAsaasStatus e gatewayPaymentId =
     (case asaas_get e gatewayPaymentId of
        None \<Rightarrow> Pending
      | Some data \<Rightarrow>
          (case js_member data ''status'' of
             Inl err \<Rightarrow> Pending
           | Inr st \<Rightarrow> mapAsaasLookup st))"

definition gatewayStatusOf ::
  "env \<Rightarrow> PaymentSettings \<Rightarrow> Payment \<Rightarrow> world \<Rightarrow> PaymentStatus \<times> world" where
  \<comment> \<open>the \<^verbatim>\<open>switch (settings.active_gateway)\<close> of the poll; \<^verbatim>\<open>null\<close> reads \<^verbatim>\<open>"null"\<close> in the
      address of the lookup\<close>
  "gatewayStatusOf e settings payment w =
     (let gid = (case gateway_payment_id payment of None \<Rightarrow> ''null'' | Some g \<Rightarrow> g)
      in if active_gateway settings = ''mercado_pago''
         then (checkMercadoPagoStatus e gid,
               w\<lparr>trace := trace w @ [GatewayStatusLookup ''mercado_pago'' gid]\<rparr>)
         else if active_gateway settings = ''asaas''
         then (checkAsaasStatus e gid,
               w\<lparr>trace := trace w @ [GatewayStatusLookup ''asaas'' gid]\<rparr>)
         else (status payment, w))"

definition payment_status_try :: "env \<Rightarrow> json option \<Rightarrow> world \<Rightarrow> attempt" where
  "payment_status_try e payload w =
     (case payload of
        None \<Rightarrow> Inl (SyntaxError, w)
      | Some body \<Rightarrow>
          (case js_member body ''payment_id'' of
             Inl err \<Rightarrow> Inl (err, w)
           | Inr None \<Rightarrow> Inr (Response 400 (ErrorJson ''payment_id e obrigatorio''), w)
           | Inr (Some payment_id) \<Rightarrow>
               (if \<not> truthy (Some payment_id)
                then Inr (Response 400 (ErrorJson ''payment_id e obrigatorio''), w)
                else case toString payment_id of
                  Inl err \<Rightarrow> Inl (err, w)
                | Inr pid \<Rightarrow>
                    (case single (filter (\<lambda>p. pay_id p = pid) (payments w)) of
                       None \<Rightarrow> Inr (Response 404 (ErrorJson ''Pagamento nao encontrado''), w)
                     | Some payment \<Rightarrow>
                         (if status payment = Approved
                          then Inr (Response 200 (StatusJson Approved (paid_at payment)), w)
                          else if status payment = Expired \<or> status payment = Rejected
                          then Inr (Response 200 (StatusJson (status payment) None), w)
                          else case single (filter (\<lambda>s. ps_owner_id s = owner_id payment)
                                              (payment_settings w)) of
                            None \<Rightarrow> Inr (Response 200 (StatusJson (status payment) None), w)
                          | Some settings \<Rightarrow>
                              (let (gatewayStatus, w1) = gatewayStatusOf e settings payment w;
                                   w2 = (if gatewayStatus \<noteq> status payment
                                         then writeStatus e pid gatewayStatus None w1
                                         else w1)
                               in Inr (Response 200
                                         (StatusJson gatewayStatus
                                            (if gatewayStatus = Approved then Some (now e)
                                             else None)),
                                       w2)))))))"

definition payment_status :: "env \<Rightarrow> http_request \<Rightarrow> world \<Rightarrow> response \<times> world" where
  "payment_status e req w =
     (case req of
        OPTIONS \<Rightarrow> (Response 200 (Text ''ok''), w)
      | POST payload \<Rightarrow> json_error (payment_status_try e payload w))"

section \<open>Payment creation\<close>

text \<open>
  The body is used as it was parsed: nothing but the presence of \<^verbatim>\<open>owner_id\<close>, \<^verbatim>\<open>plan_id\<close>,
  \<^verbatim>\<open>payment_method\<close> and \<^verbatim>\<open>customer\<close> is checked, so later reads of it can throw.
\<close>

definition gateways :: "string list" where
  \<comment> \<open>the cases of the \<^verbatim>\<open>switch\<close> that call an adapter\<close>
  "gateways = [''mercado_pago'', ''asaas'', ''pagseguro'', ''pagarme'']"

definition lowerEmail :: "env \<Rightarrow> json option \<Rightarrow> js_error + string" where
  \<comment> \<open>\<^verbatim>\<open>customer.email.toLowerCase()\<close> for a \<^verbatim>\<open>customer\<close> that is not \<^verbatim>\<open>null\<close>\<close>
  "lowerEmail e cust =
     (case opt_member cust ''email'' of
        Some (JStr s) \<Rightarrow> Inr (toLowerCase e s)
      | _ \<Rightarrow> Inl TypeError)"

definition lastDigitsThrow :: "json option \<Rightarrow> bool" where
  \<comment> \<open>whether \<^verbatim>\<open>card?.number?.slice(-4)\<close> throws: \<^verbatim>\<open>slice\<close> is a function on texts and
      arrays only\<close>
  "lastDigitsThrow crd =
     (case opt_member crd ''number'' of
        None \<Rightarrow> False
      | Some JNull \<Rightarrow> False
      | Some (JStr s) \<Rightarrow> False
      | Some (JArr xs) \<Rightarrow> False
      | Some v \<Rightarrow> True)"

definition column_text :: "env \<Rightarrow> json option \<Rightarrow> string option" where
  \<comment> \<open>what a text column holds after a JSON value was written to it\<close>
  "column_text e v =
     (case v of
        None \<Rightarrow> None
      | Some JNull \<Rightarrow> None
      | Some (JStr s) \<Rightarrow> Some s
      | Some x \<Rightarrow> Some (text_of_json e x))"

definition column_uuid :: "json option \<Rightarrow> uuid option" where
  \<comment> \<open>only a text can be written to a UUID column\<close>
  "column_uuid v = (case v of Some (JStr s) \<Rightarrow> Some s | _ \<Rightarrow> None)"

text \<open>
  The row that \<^verbatim>\<open>insert\<close> receives, when the database can take it: \<^verbatim>\<open>owner_id\<close> and
  \<^verbatim>\<open>plan_id\<close> must be texts, \<^verbatim>\<open>customer_name\<close> must not be \<^verbatim>\<open>null\<close>, and the database must
  not refuse it for a reason of its own.
\<close>

definition new_payment ::
  "env \<Rightarrow> json \<Rightarrow> string \<Rightarrow> PaymentSettings \<Rightarrow> SubscriptionPlan \<Rightarrow> Profile option
     \<Rightarrow> ChargeResult \<Rightarrow> Payment option" where
  "new_payment e body email settings plan existingClient paymentResult =
     (let cust = opt_member (Some body) ''customer'' in
      case new_payment_id e of
        None \<Rightarrow> None
      | Some new_id \<Rightarrow>
          (case column_uuid (opt_member (Some body) ''owner_id'') of
             None \<Rightarrow> None
           | Some owner \<Rightarrow>
               (case column_uuid (opt_member (Some body) ''plan_id'') of
                  None \<Rightarrow> None
                | Some plan_ref \<Rightarrow>
                    (case column_text e (opt_member cust ''name'') of
                       None \<Rightarrow> None
                     | Some name \<Rightarrow>
                         (case column_text e (opt_member (Some body) ''payment_method'') of
                            None \<Rightarrow> None
                          | Some method \<Rightarrow>
                              Some \<lparr>pay_id = new_id,
                                    owner_id = owner,
                                    client_id = map_option pf_id existingClient,
                                    plan_id = Some plan_ref,
                                    gateway = active_gateway settings,
                                    gateway_payment_id = cr_gateway_payment_id paymentResult,
                                    amount_cents = price_cents plan,
                                    payment_method = method,
                                    status = cr_status paymentResult,
                                    customer_email = email,
                                    customer_name = name,
                                    customer_phone = column_text e (opt_member cust ''phone''),
                                    paid_at = (if cr_status paymentResult = Approved
                                               then Some (now e) else None),
                                    webhook_data = None\<rparr>)))))"

text \<open>
  \<open>charge_and_record\<close> is the part of the function after its checks: the call of the
  adapter of the active gateway, the \<^verbatim>\<open>insert\<close> of the payment row, and provisioning when a
  card was approved at once.
\<close>

definition charge_and_record ::
  "env \<Rightarrow> json \<Rightarrow> string \<Rightarrow> PaymentSettings \<Rightarrow> SubscriptionPlan \<Rightarrow> Profile option \<Rightarrow> world
     \<Rightarrow> attempt" where
  "charge_and_record e body email settings plan existingClient w =
     (let w1 = w\<lparr>trace := trace w @ [GatewayCharge (active_gateway settings)]\<rparr>
      in case createCharge e (active_gateway settings) of
           AdapterThrew err \<Rightarrow> Inl (err, w1)
         | AdapterError msg \<Rightarrow> Inr (Response 400 (ErrorJson msg), w1)
         | Charged paymentResult \<Rightarrow>
             (if lastDigitsThrow (opt_member (Some body) ''card'') then Inl (TypeError, w1)
              else case new_payment e body email settings plan existingClient paymentResult of
                None \<Rightarrow> Inr (Response 500 (ErrorJson ''Erro ao registrar pagamento''), w1)
              | Some payment \<Rightarrow>
                  (let w2 = w1\<lparr>payments := payments w1 @ [payment],
                              trace := trace w1 @ [PaymentInserted payment]\<rparr>
                   in if opt_member (Some body) ''payment_method'' = Some (JStr ''credit_card'')
                         \<and> cr_status paymentResult = Approved
                      then (case handlePaymentApproved3 e payment plan w2 of
                              (Some err, w3) \<Rightarrow> Inl (err, w3)
                            | (None, w3) \<Rightarrow>
                                Inr (Response 200
                                       (CreatedJson (pay_id payment) (cr_status paymentResult)),
                                     w3))
                      else Inr (Response 200
                                  (CreatedJson (pay_id payment) (cr_status paymentResult)),
                                w2))))"

definition payment_create_try :: "env \<Rightarrow> json option \<Rightarrow> world \<Rightarrow> attempt" where
  "payment_create_try e payload w =
     (case payload of
        None \<Rightarrow> Inl (SyntaxError, w)
      | Some body \<Rightarrow>
          (if body = JNull then Inl (TypeError, w)
           else
             (let owner_id = opt_member (Some body) ''owner_id'';
                  plan_id = opt_member (Some body) ''plan_id'';
                  payment_method = opt_member (Some body) ''payment_method'';
                  cust = opt_member (Some body) ''customer'';
                  crd = opt_member (Some body) ''card''
              in if \<not> truthy owner_id \<or> \<not> truthy plan_id \<or> \<not> truthy payment_method
                    \<or> \<not> truthy cust
                 then Inr (Response 400 (ErrorJson ''Dados incompletos''), w)
                 else if payment_method = Some (JStr ''credit_card'') \<and> \<not> truthy crd
                 then Inr (Response 400 (ErrorJson ''Dados do cartao sao obrigatorios''), w)
                 else case toString (case owner_id of Some v \<Rightarrow> v | None \<Rightarrow> JNull) of
                   Inl err \<Rightarrow> Inl (err, w)
                 | Inr owner \<Rightarrow>
                     (case single (filter (\<lambda>s. ps_owner_id s = owner) (payment_settings w)) of
                        None \<Rightarrow>
                          Inr (Response 400
                                 (ErrorJson ''Configuracoes de pagamento nao encontradas''), w)
                      | Some settings \<Rightarrow>
                          (if payment_method = Some (JStr ''pix'') \<and> \<not> pix_enabled settings
                           then Inr (Response 400 (ErrorJson ''PIX nao esta habilitado''), w)
                           else if payment_method = Some (JStr ''boleto'')
                                   \<and> \<not> boleto_enabled settings
                           then Inr (Response 400 (ErrorJson ''Boleto nao esta habilitado''), w)
                           else if payment_method = Some (JStr ''credit_card'')
                                   \<and> \<not> credit_card_enabled settings
                           then Inr (Response 400
                                       (ErrorJson ''Cartao de credito nao esta habilitado''), w)
                           else case toString (case plan_id of Some v \<Rightarrow> v | None \<Rightarrow> JNull) of
                             Inl err \<Rightarrow> Inl (err, w)
                           | Inr plan_ref \<Rightarrow>
                               (case single (filter (\<lambda>s. sp_id s = plan_ref \<and> sp_is_active s)
                                               (subscription_plans w)) of
                                  None \<Rightarrow> Inr (Response 400 (ErrorJson ''Plano nao encontrado''), w)
                                | Some plan \<Rightarrow>
                                    (case lowerEmail e cust of
                                       Inl err \<Rightarrow> Inl (err, w)
                                     | Inr email \<Rightarrow>
                                         (let existingClient =
                                                single (filter (\<lambda>r. pf_email r = Some email)
                                                          (profiles w))
                                          in if active_gateway settings \<notin> set gateways
                                             then Inr (Response 400
                                                         (ErrorJson ''Gateway nao configurado''), w)
                                             else charge_and_record e body email settings plan
                                                    existingClient w))))))))"

definition payment_create :: "env \<Rightarrow> http_request \<Rightarrow> world \<Rightarrow> response \<times> world" where
  "payment_create e req w =
     (case req of
        OPTIONS \<Rightarrow> (Response 200 (Text ''ok''), w)
      | POST payload \<Rightarrow> json_error (payment_create_try e payload w))"

section \<open>Auxiliary notions\<close>

text \<open>
  \<open>state_of\<close> is the state an attempt leaves. \<open>unlinked\<close> forgets the account a payment is
  linked to. \<open>reconcile\<close> is what the receivers of PagSeguro, Pagar.me and Asaas have in
  common once the gateway's identifier and the mapping of the event are known: the lookup
  of the payment, the mapping of its stored status, and the end of the receiver.
  \<open>statusWrites\<close> and \<open>provisionings\<close> select from the trace the updates of a status and
  the entries into \<^verbatim>\<open>handlePaymentApproved\<close>.
\<close>

definition state_of :: "attempt \<Rightarrow> world" where
  "state_of r = (case r of Inl (err, w) \<Rightarrow> w | Inr (resp, w) \<Rightarrow> w)"

definition unlinked :: "Payment \<Rightarrow> Payment" where
  "unlinked q = q\<lparr>client_id := None\<rparr>"

definition reconcile ::
  "string \<Rightarrow> (PaymentStatus \<Rightarrow> js_error + PaymentStatus) \<Rightarrow> env \<Rightarrow> string \<Rightarrow> json \<Rightarrow> world
     \<Rightarrow> attempt" where
  "reconcile gw cand e key body w =
     (case find_payment gw key w of
        None \<Rightarrow> Inr (Response 200 (Text ''OK''), w)
      | Some dbPayment \<Rightarrow>
          (case cand (status dbPayment) of
             Inl err \<Rightarrow> Inl (err, w)
           | Inr newStatus \<Rightarrow> applyWebhookStatus e dbPayment newStatus body w))"

fun isStatusWrite :: "effect \<Rightarrow> bool" where
  "isStatusWrite (StatusWrite pid s) = True"
| "isStatusWrite x = False"

fun isProvisioning :: "effect \<Rightarrow> bool" where
  "isProvisioning (ProvisioningInvoked pid) = True"
| "isProvisioning x = False"

definition statusWrites :: "world \<Rightarrow> effect list" where
  "statusWrites w = filter isStatusWrite (trace w)"

definition provisionings :: "world \<Rightarrow> effect list" where
  "provisionings w = filter isProvisioning (trace w)"

text \<open>
  \<open>written_once pid ns w w'\<close>: from \<open>w\<close> to \<open>w'\<close> the status \<open>ns\<close> of the payment \<open>pid\<close> is the one
  status written, and \<^verbatim>\<open>handlePaymentApproved\<close> is entered once, for that payment, when \<open>ns\<close>
  is \<^verbatim>\<open>approved\<close> and not at all otherwise. \<open>redeliver\<close> is a receiver answering the same
  request a second time, in the state the first delivery left and at another moment.
\<close>

definition written_once :: "uuid \<Rightarrow> PaymentStatus \<Rightarrow> world \<Rightarrow> world \<Rightarrow> bool" where
  "written_once pid ns w w' \<longleftrightarrow>
     statusWrites w' = statusWrites w @ [StatusWrite pid ns]
     \<and> provisionings w' =
         provisionings w @ (if ns = Approved then [ProvisioningInvoked pid] else [])"

definition redeliver ::
  "(env \<Rightarrow> http_request \<Rightarrow> world \<Rightarrow> response \<times> world) \<Rightarrow> env \<Rightarrow> env \<Rightarrow> http_request
     \<Rightarrow> world \<Rightarrow> response \<times> world" where
  "redeliver receiver e1 e2 req w = receiver e2 req (snd (receiver e1 req w))"

text \<open>
  The end date the specification asks of a renewal: the old end date plus the duration
  when the old end date is after today, today plus the duration otherwise.
\<close>

definition spec_plan_end :: "day \<Rightarrow> int \<Rightarrow> day option \<Rightarrow> day" where
  "spec_plan_end today duration old =
     (case old of
        None \<Rightarrow> today + duration
      | Some d \<Rightarrow> if today < d then d + duration else today + duration)"

text \<open>
  The preconditions the specification puts on a payment creation, read off the request as
  the function reads it: the owner's settings exist, the requested method is not disabled
  in them, they name a gateway that has an adapter, and the plan exists and is active.
  \<open>requested\<close> is a member of the parsed body, \<open>lookup_text\<close> the text a query is given for
  it. \<open>validation_errors\<close> are the messages of the checks the function makes before it
  calls an adapter.
\<close>

definition requested :: "json option \<Rightarrow> string \<Rightarrow> json option" where
  "requested payload k = (case payload of None \<Rightarrow> None | Some body \<Rightarrow> opt_member (Some body) k)"

definition lookup_text :: "json option \<Rightarrow> string option" where
  "lookup_text v =
     (case v of
        None \<Rightarrow> None
      | Some x \<Rightarrow> (case toString x of Inl err \<Rightarrow> None | Inr s \<Rightarrow> Some s))"

definition settings_of :: "json option \<Rightarrow> world \<Rightarrow> PaymentSettings option" where
  "settings_of payload w =
     (case lookup_text (requested payload ''owner_id'') of
        None \<Rightarrow> None
      | Some owner \<Rightarrow> single (filter (\<lambda>s. ps_owner_id s = owner) (payment_settings w)))"

definition plan_of :: "json option \<Rightarrow> world \<Rightarrow> SubscriptionPlan option" where
  "plan_of payload w =
     (case lookup_text (requested payload ''plan_id'') of
        None \<Rightarrow> None
      | Some plan_ref \<Rightarrow>
          single (filter (\<lambda>s. sp_id s = plan_ref \<and> sp_is_active s) (subscription_plans w)))"

definition method_disabled :: "PaymentSettings \<Rightarrow> json option \<Rightarrow> bool" where
  "method_disabled s m \<longleftrightarrow>
     m = Some (JStr ''pix'') \<and> \<not> pix_enabled s
     \<or> m = Some (JStr ''boleto'') \<and> \<not> boleto_enabled s
     \<or> m = Some (JStr ''credit_card'') \<and> \<not> credit_card_enabled s"

definition complete_request :: "json option \<Rightarrow> bool" where
  \<comment> \<open>the request passes the checks of its own members\<close>
  "complete_request payload \<longleftrightarrow>
     truthy (requested payload ''owner_id'') \<and> truthy (requested payload ''plan_id'')
     \<and> truthy (requested payload ''payment_method'') \<and> truthy (requested payload ''customer'')
     \<and> (requested payload ''payment_method'' = Some (JStr ''credit_card'')
          \<longrightarrow> truthy (requested payload ''card''))"

definition spec_preconditions_met :: "json option \<Rightarrow> world \<Rightarrow> bool" where
  "spec_preconditions_met payload w =
     (case settings_of payload w of
        None \<Rightarrow> False
      | Some s \<Rightarrow>
          \<not> method_disabled s (requested payload ''payment_method'')
          \<and> active_gateway s \<in> set gateways
          \<and> plan_of payload w \<noteq> None)"

definition validation_errors :: "string list" where
  "validation_errors =
     [''Dados incompletos'', ''Dados do cartao sao obrigatorios'',
      ''Configuracoes de pagamento nao encontradas'', ''PIX nao esta habilitado'',
      ''Boleto nao esta habilitado'', ''Cartao de credito nao esta habilitado'',
      ''Plano nao encontrado'', ''Gateway nao configurado'']"

section \<open>Example states\<close>

text \<open>
  One owner with one plan of 30 days, one client account and one payment; the clock
  stands at noon of day 20000. The example environment lowers the ASCII capitals of a
  text, as \<^verbatim>\<open>toLowerCase\<close> does on ASCII text.
\<close>

definition ascii_lower :: "string \<Rightarrow> string" where
  "ascii_lower s =
     map (\<lambda>c. let n = (of_char c :: nat) in if 65 \<le> n \<and> n \<le> 90 then char_of (n + 32) else c) s"

definition ex_plan :: SubscriptionPlan where
  "ex_plan = \<lparr>sp_id = ''plan-1'', sp_name = ''Mensal'', duration_days = 30,
              price_cents = 9900, sp_is_active = True\<rparr>"

definition ex_profile :: "day option \<Rightarrow> Profile" where
  "ex_profile d = \<lparr>pf_id = ''client-1'', pf_role = ''client'', pf_full_name = ''Ana'',
                   pf_email = Some ''ana@example.com'', pf_phone = None,
                   plan_start_date = None, plan_end_date = d, is_active = False\<rparr>"

definition ex_payment :: "string \<Rightarrow> PaymentStatus \<Rightarrow> uuid option \<Rightarrow> Payment" where
  "ex_payment gw st cid =
     \<lparr>pay_id = ''pay-1'', owner_id = ''owner-1'', client_id = cid, plan_id = Some ''plan-1'',
      gateway = gw, gateway_payment_id = Some ''ext-1'', amount_cents = 9900,
      payment_method = ''pix'', status = st, customer_email = ''ana@example.com'',
      customer_name = ''Ana'', customer_phone = None, paid_at = None, webhook_data = None\<rparr>"

definition ex_settings :: "string \<Rightarrow> PaymentSettings" where
  "ex_settings gw = \<lparr>ps_owner_id = ''owner-1'', active_gateway = gw, pix_enabled = True,
                     boleto_enabled = True, credit_card_enabled = False\<rparr>"

definition ex_world :: "string \<Rightarrow> PaymentStatus \<Rightarrow> uuid option \<Rightarrow> day option \<Rightarrow> world" where
  "ex_world gw st cid d =
     \<lparr>payments = [ex_payment gw st cid], profiles = [ex_profile d],
      subscription_plans = [ex_plan], payment_settings = [ex_settings gw], trace = []\<rparr>"

definition ex_twins :: world where
  \<comment> \<open>two accounts with the same email\<close>
  "ex_twins =
     (ex_world ''asaas'' Pending None None)
       \<lparr>profiles := [ex_profile None, (ex_profile None)\<lparr>pf_id := ''client-2''\<rparr>]\<rparr>"

definition ex_env :: env where
  "ex_env =
     \<lparr>now = 20000 * 86400000 + 43200000, generatePassword = ''Xk3mPq7R'',
      createUser = (\<lambda>email. Some ''user-9''),
      mercadopago_get = (\<lambda>i. Some (JObj [(''status'', JStr ''approved'')])),
      asaas_get = (\<lambda>i. Some (JObj [(''status'', JStr ''CONFIRMED'')])),
      createCharge =
        (\<lambda>gw. Charged \<lparr>cr_gateway_payment_id = Some ''ext-2'', cr_status = Pending\<rparr>),
      new_payment_id = Some ''pay-2'',
      toLowerCase = ascii_lower,
      legacy_date = (\<lambda>d. None),
      text_of_json = (\<lambda>v. [])\<rparr>"

definition ex_env_mp :: "string \<Rightarrow> env" where
  \<comment> \<open>the example environment with Mercado Pago reporting another status\<close>
  "ex_env_mp st = ex_env\<lparr>mercadopago_get := (\<lambda>i. Some (JObj [(''status'', JStr st)]))\<rparr>"

definition ex_pagarme_event :: "string \<Rightarrow> json" where
  "ex_pagarme_event ev = JObj [(''type'', JStr ev), (''data'', JObj [(''id'', JStr ''ext-1'')])]"

definition ex_asaas_event :: "string \<Rightarrow> json" where
  "ex_asaas_event ev = JObj [(''event'', JStr ev), (''payment'', JObj [(''id'', JStr ''ext-1'')])]"

definition ex_pagseguro_order :: "string \<Rightarrow> json" where
  "ex_pagseguro_order st =
     JObj [(''id'', JStr ''ext-1''), (''charges'', JArr [JObj [(''status'', JStr st)]])]"

definition ex_mercadopago_event :: json where
  "ex_mercadopago_event =
     JObj [(''type'', JStr ''payment''), (''data'', JObj [(''id'', JStr ''ext-1'')])]"

definition ex_poll :: json where
  "ex_poll = JObj [(''payment_id'', JStr ''pay-1'')]"

definition ex_request :: "string \<Rightarrow> (string \<times> json) list \<Rightarrow> json" where
  \<comment> \<open>a request for a method, with the members of its \<^verbatim>\<open>customer\<close>\<close>
  "ex_request m cust =
     JObj [(''owner_id'', JStr ''owner-1''), (''plan_id'', JStr ''plan-1''),
           (''payment_method'', JStr m), (''customer'', JObj cust),
           (''card'', JObj [(''number'', JStr ''4111111111111111''),
                            (''holder_name'', JStr ''ANA''), (''installments'', JNum ''1'')])]"

definition ex_customer :: "(string \<times> json) list" where
  "ex_customer = [(''name'', JStr ''Ana''), (''email'', JStr ''Ana@Example.com''),
                  (''cpf'', JStr ''12345678909'')]"

section \<open>Dates\<close>

lemma timeClip_iso: "iso_day (t div ms_per_day) \<Longrightarrow> timeClip t = Some t"
  unfolding iso_day_def timeClip_def ms_per_day_def maxTime_def by (simp, linarith)

lemma of_date_iso: "iso_day d \<Longrightarrow> of_date e d = Some (d * ms_per_day)"
  by (simp add: of_date_def)

lemma addDays_iso:
  "iso_day (t div ms_per_day + n) \<Longrightarrow> isoDate (addDays (Some t) n) = Inr (t div ms_per_day + n)"
proof -
  assume a: "iso_day (t div ms_per_day + n)"
  have d: "(t + n * ms_per_day) div ms_per_day = t div ms_per_day + n"
    by (simp add: ms_per_day_def)
  have "timeClip (t + n * ms_per_day) = Some (t + n * ms_per_day)"
    by (rule timeClip_iso) (simp add: d a)
  then show ?thesis
    by (simp add: addDays_def isoDate_def d)
qed

lemma later_of_day: "later (Some (d * ms_per_day)) (Some t) \<longleftrightarrow> t div ms_per_day < d"
  unfolding later_def ms_per_day_def by (simp, linarith)

lemma renewalEndDate_day:
  assumes "\<forall>d. plan_end_date r = Some d \<longrightarrow> iso_day d"
    and "iso_day (spec_plan_end (t div ms_per_day) (duration_days plan) (plan_end_date r))"
  shows "isoDate (renewalEndDate e (Some t) plan (Some r)) =
           Inr (spec_plan_end (t div ms_per_day) (duration_days plan) (plan_end_date r))"
proof (cases "plan_end_date r")
  case None
  then show ?thesis
    using assms(2) by (simp add: renewalEndDate_def Let_def spec_plan_end_def addDays_iso)
next
  case (Some d)
  then have i: "iso_day d" using assms(1) by simp
  have m: "d * ms_per_day div ms_per_day = d"
    by (simp add: ms_per_day_def)
  show ?thesis
  proof (cases "t div ms_per_day < d")
    case True
    then have "iso_day (d * ms_per_day div ms_per_day + duration_days plan)"
      using assms(2) Some by (simp add: spec_plan_end_def m)
    then have "isoDate (addDays (Some (d * ms_per_day)) (duration_days plan)) =
        Inr (d + duration_days plan)"
      using addDays_iso [of "d * ms_per_day" "duration_days plan"] by (simp add: m)
    then show ?thesis
      using True Some
      by (simp add: renewalEndDate_def Let_def spec_plan_end_def of_date_iso i later_of_day)
  next
    case False
    then have "iso_day (t div ms_per_day + duration_days plan)"
      using assms(2) Some by (simp add: spec_plan_end_def)
    then show ?thesis
      using False Some
      by (simp add: renewalEndDate_def Let_def spec_plan_end_def of_date_iso i later_of_day
          addDays_iso)
  qed
qed

lemma filter_update_where:
  "(\<And>r. P (f r) = P r) \<Longrightarrow> filter P (update_where Q f rows) = update_where Q f (filter P rows)"
  by (induction rows) (simp_all add: update_where_def)

lemma update_where_single: "update_where Q f [r] = [if Q r then f r else r]"
  by (simp add: update_where_def)

lemma single_singleton: "single [r] = Some r"
  by (simp add: single_def)

section \<open>The renewal branch of provisioning\<close>

lemma pf_id_of_filter: "filter (\<lambda>r. pf_id r = cid) rows = [r] \<Longrightarrow> pf_id r = cid"
  by (metis (mono_tags, lifting) filter_eq_Cons_iff)

lemma provision_renewal:
  "client_id payment = Some cid \<Longrightarrow>
   provision e payment plan w =
     (case isoDate (renewalEndDate e (Some (now e)) plan
                      (single (filter (\<lambda>r. pf_id r = cid) (profiles w)))) of
        Inl err \<Rightarrow> (Some err, w)
      | Inr d \<Rightarrow> (None, set_plan_end cid d w))"
  by (simp add: provision_def Let_def)

lemma profiles_set_plan_end:
  "profiles (set_plan_end cid d w) =
     update_where (\<lambda>r. pf_id r = cid) (\<lambda>r. r\<lparr>plan_end_date := Some d, is_active := True\<rparr>)
       (profiles w)"
  by (simp add: set_plan_end_def)

lemma renewal_profiles:
  assumes "client_id payment = Some cid"
    and "filter (\<lambda>r. pf_id r = cid) (profiles w) = [r]"
    and "\<forall>d. plan_end_date r = Some d \<longrightarrow> iso_day d"
    and "iso_day (spec_plan_end (now e div ms_per_day) (duration_days plan) (plan_end_date r))"
  shows "fst (provision e payment plan w) = None
     \<and> filter (\<lambda>r. pf_id r = cid) (profiles (snd (provision e payment plan w))) =
         [r\<lparr>plan_end_date :=
              Some (spec_plan_end (now e div ms_per_day) (duration_days plan) (plan_end_date r)),
            is_active := True\<rparr>]"
proof -
  have r: "pf_id r = cid"
    using assms(2) by (rule pf_id_of_filter)
  show ?thesis
    unfolding provision_renewal [OF assms(1)]
    by (simp add: assms(2) single_singleton renewalEndDate_day [OF assms(3,4)]
        profiles_set_plan_end filter_update_where update_where_single r)
qed

text \<open>
  C4. Renewal: the payment references a client account, which is the one row \<open>r\<close> of
  \<^verbatim>\<open>profiles\<close> with that identifier, and the plan has \<open>duration_days plan\<close> days. The old end
  date, when there is one, and the end date the specification asks for lie in the years
  0001 to 9999, where a date has the text \<^verbatim>\<open>YYYY-MM-DD\<close> and lies within the range of a
  JavaScript \<^verbatim>\<open>Date\<close>. Then \<^verbatim>\<open>handlePaymentApproved\<close> (the webhook receivers' copy, which
  reads the plan of the payment, and the payment creation's copy, which is given it)
  does not throw, and after it the account's \<^verbatim>\<open>plan_end_date\<close> is the old end date plus the
  duration when the old end date is strictly after today, and today plus the duration when
  it is today, in the past or unset; \<^verbatim>\<open>is_active\<close> is true; nothing else of the account
  changes. Today is the UTC day of the handler's clock.
\<close>

theorem renewal_extends_or_restarts:
  assumes "client_id payment = Some cid"
    and "filter (\<lambda>r. pf_id r = cid) (profiles w) = [r]"
    and "plan_id payment = Some pl"
    and "filter (\<lambda>s. sp_id s = pl) (subscription_plans w) = [plan]"
    and "\<forall>d. plan_end_date r = Some d \<longrightarrow> iso_day d"
    and "iso_day (spec_plan_end (now e div ms_per_day) (duration_days plan) (plan_end_date r))"
  shows "fst (handlePaymentApproved e payment w) = None
       \<and> filter (\<lambda>r. pf_id r = cid) (profiles (snd (handlePaymentApproved e payment w))) =
           [r\<lparr>plan_end_date :=
                Some (spec_plan_end (now e div ms_per_day) (duration_days plan)
                        (plan_end_date r)),
              is_active := True\<rparr>]
       \<and> fst (handlePaymentApproved3 e payment plan w) = None
       \<and> filter (\<lambda>r. pf_id r = cid) (profiles (snd (handlePaymentApproved3 e payment plan w))) =
           [r\<lparr>plan_end_date :=
                Some (spec_plan_end (now e div ms_per_day) (duration_days plan)
                        (plan_end_date r)),
              is_active := True\<rparr>]"
proof -
  let ?w = "w\<lparr>trace := trace w @ [ProvisioningInvoked (pay_id payment)]\<rparr>"
  have p: "filter (\<lambda>r. pf_id r = cid) (profiles ?w) = [r]"
    using assms(2) by simp
  have a: "handlePaymentApproved e payment w = provision e payment plan ?w"
    using assms(3,4) by (simp add: handlePaymentApproved_def Let_def single_singleton)
  have b: "handlePaymentApproved3 e payment plan w = provision e payment plan ?w"
    by (simp add: handlePaymentApproved3_def)
  show ?thesis
    unfolding a b using renewal_profiles [OF assms(1) p assms(5,6)] by simp
qed

lemma ex_renewal_client:
  "client_id (ex_payment gw st (Some ''client-1'')) = Some ''client-1''"
  by (simp add: ex_payment_def)

lemma ex_renewal_profile:
  "filter (\<lambda>r. pf_id r = ''client-1'') (profiles (ex_world gw st cid d)) = [ex_profile d]"
  by (simp add: ex_world_def ex_profile_def)

lemma ex_renewal_plan_id: "plan_id (ex_payment gw st cid) = Some ''plan-1''"
  by (simp add: ex_payment_def)

lemma ex_renewal_plan:
  "filter (\<lambda>s. sp_id s = ''plan-1'') (subscription_plans (ex_world gw st cid d)) = [ex_plan]"
  by (simp add: ex_world_def ex_plan_def)

lemma ex_today: "now ex_env div ms_per_day = 20000"
  by (simp add: ex_env_def ms_per_day_def)

text \<open>
  An end date ten days ahead and a plan of 30 days give an end date forty days ahead; an
  end date of yesterday gives thirty days from today.
\<close>

theorem renewal_extends_or_restarts_witness:
  "filter (\<lambda>r. pf_id r = ''client-1'')
     (profiles (snd (handlePaymentApproved ex_env
        (ex_payment ''asaas'' Pending (Some ''client-1''))
        (ex_world ''asaas'' Pending (Some ''client-1'') (Some 20010)))))
     = [(ex_profile (Some 20040))\<lparr>is_active := True\<rparr>]
   \<and> filter (\<lambda>r. pf_id r = ''client-1'')
     (profiles (snd (handlePaymentApproved3 ex_env
        (ex_payment ''asaas'' Pending (Some ''client-1''))
        ex_plan (ex_world ''asaas'' Pending (Some ''client-1'') (Some 19999)))))
     = [(ex_profile (Some 20030))\<lparr>is_active := True\<rparr>]"
  using
    renewal_extends_or_restarts
      [OF ex_renewal_client [of "''asaas''" Pending]
          ex_renewal_profile [of "''asaas''" Pending "Some ''client-1''" "Some 20010"]
          ex_renewal_plan_id [of "''asaas''" Pending "Some ''client-1''"]
          ex_renewal_plan [of "''asaas''" Pending "Some ''client-1''" "Some 20010"],
       where e = ex_env]
    renewal_extends_or_restarts
      [OF ex_renewal_client [of "''asaas''" Pending]
          ex_renewal_profile [of "''asaas''" Pending "Some ''client-1''" "Some 19999"]
          ex_renewal_plan_id [of "''asaas''" Pending "Some ''client-1''"]
          ex_renewal_plan [of "''asaas''" Pending "Some ''client-1''" "Some 19999"],
       where e = ex_env]
  by (simp add: ex_today ex_profile_def ex_plan_def spec_plan_end_def iso_day_def)

section \<open>The webhook receivers\<close>

lemma snd_respond: "snd (respond r) = state_of r"
  by (simp add: respond_def state_of_def split: sum.splits prod.splits)

lemma state_of_simps:
  "state_of (Inl (err, w)) = w"
  "state_of (Inr (r, w)) = w"
  by (simp_all add: state_of_def)

lemma respond_simps:
  "respond (Inl (err, w)) = (Response 500 (Text ''Error''), w)"
  "respond (Inr (r, w)) = (r, w)"
  by (simp_all add: respond_def)

lemma unlinked_link_payment:
  "map unlinked (payments (link_payment pid cid w)) = map unlinked (payments w)"
  by (simp add: link_payment_def update_where_def unlinked_def)

lemma payments_set_plan_end: "payments (set_plan_end cid d w) = payments w"
  by (simp add: set_plan_end_def)

lemma trace_set_plan_end: "trace (set_plan_end cid d w) = trace w"
  by (simp add: set_plan_end_def)

lemma trace_link_payment: "trace (link_payment pid cid w) = trace w"
  by (simp add: link_payment_def)

text \<open>
  Whatever branch provisioning takes, and whether or not it throws, it leaves the payments
  as they are up to the account they are linked to, writes no status and does not enter
  \<^verbatim>\<open>handlePaymentApproved\<close>.
\<close>

lemma provision_keeps:
  "map unlinked (payments (snd (provision e p plan w))) = map unlinked (payments w)
   \<and> statusWrites (snd (provision e p plan w)) = statusWrites w
   \<and> provisionings (snd (provision e p plan w)) = provisionings w"
proof (cases "client_id p")
  case (Some cid)
  then show ?thesis
    by (simp add: provision_renewal payments_set_plan_end statusWrites_def provisionings_def
        trace_set_plan_end split: sum.splits)
next
  case None
  note n = this
  show ?thesis
  proof (cases "single (filter (\<lambda>r. pf_email r = Some (customer_email p)) (profiles w))")
    case (Some u)
    then show ?thesis
      using n by (simp add: provision_def Let_def unlinked_link_payment payments_set_plan_end
          statusWrites_def provisionings_def trace_set_plan_end trace_link_payment
          split: sum.splits)
  next
    case None
    note m = this
    show ?thesis
    proof (cases "createUser e (customer_email p)")
      case None
      then show ?thesis
        using n m by (simp add: provision_def Let_def)
    next
      case (Some uid)
      then show ?thesis
        using n m by (simp add: provision_def Let_def unlinked_link_payment
            statusWrites_def provisionings_def trace_link_payment split: sum.splits)
    qed
  qed
qed

lemma handlePaymentApproved_cases:
  "handlePaymentApproved e p w = (None, w\<lparr>trace := trace w @ [ProvisioningInvoked (pay_id p)]\<rparr>)
   \<or> (\<exists>plan. handlePaymentApproved e p w =
         provision e p plan (w\<lparr>trace := trace w @ [ProvisioningInvoked (pay_id p)]\<rparr>))"
  by (auto simp add: handlePaymentApproved_def Let_def split: option.splits)

lemma handlePaymentApproved_keeps:
  "map unlinked (payments (snd (handlePaymentApproved e p w))) = map unlinked (payments w)
   \<and> statusWrites (snd (handlePaymentApproved e p w)) = statusWrites w
   \<and> provisionings (snd (handlePaymentApproved e p w)) =
       provisionings w @ [ProvisioningInvoked (pay_id p)]"
proof -
  let ?w = "w\<lparr>trace := trace w @ [ProvisioningInvoked (pay_id p)]\<rparr>"
  have s: "statusWrites ?w = statusWrites w"
    and p: "provisionings ?w = provisionings w @ [ProvisioningInvoked (pay_id p)]"
    and q: "payments ?w = payments w"
    by (simp_all add: statusWrites_def provisionings_def)
  show ?thesis
    using handlePaymentApproved_cases [of e p w] s p q
    by (auto simp add: provision_keeps)
qed

lemma single_eq_Some: "single rows = Some r \<longleftrightarrow> rows = [r]"
  by (cases rows; cases "tl rows") (auto simp add: single_def)

lemma map_eq_singleton: "map f xs = [y] \<Longrightarrow> \<exists>x. xs = [x] \<and> f x = y"
  by (cases xs) auto

lemma payments_writeStatus:
  "payments (writeStatus e pid ns d w) =
     update_where (\<lambda>p. pay_id p = pid)
       (\<lambda>p. p\<lparr>status := ns,
              webhook_data := (case d of None \<Rightarrow> webhook_data p | Some x \<Rightarrow> Some x),
              paid_at := (if ns = Approved then Some (now e) else paid_at p)\<rparr>)
       (payments w)"
  by (simp add: writeStatus_def)

lemma counts_writeStatus:
  "statusWrites (writeStatus e pid ns d w) = statusWrites w @ [StatusWrite pid ns]
   \<and> provisionings (writeStatus e pid ns d w) = provisionings w"
  by (simp add: writeStatus_def statusWrites_def provisionings_def)

lemma state_of_applyWebhookStatus:
  "ns \<noteq> status db \<Longrightarrow>
   state_of (applyWebhookStatus e db ns body w) =
     (if ns = Approved
      then snd (handlePaymentApproved e db (writeStatus e (pay_id db) ns (Some body) w))
      else writeStatus e (pay_id db) ns (Some body) w)"
  by (simp add: applyWebhookStatus_def Let_def state_of_def split: prod.splits option.splits)

lemma applyWebhookStatus_same:
  "applyWebhookStatus e db (status db) body w = Inr (Response 200 (Text ''OK''), w)"
  by (simp add: applyWebhookStatus_def)

lemma applyWebhookStatus_once:
  "ns \<noteq> status db \<Longrightarrow>
   written_once (pay_id db) ns w (state_of (applyWebhookStatus e db ns body w))"
  by (simp add: state_of_applyWebhookStatus written_once_def handlePaymentApproved_keeps
      counts_writeStatus)

lemma unlinked_applyWebhookStatus:
  "ns \<noteq> status db \<Longrightarrow>
   map unlinked (payments (state_of (applyWebhookStatus e db ns body w))) =
   map unlinked (payments (writeStatus e (pay_id db) ns (Some body) w))"
  by (simp add: state_of_applyWebhookStatus handlePaymentApproved_keeps)

lemma filter_unlinked:
  "filter (\<lambda>p. gateway_payment_id p = Some key \<and> gateway p = gw) (map unlinked rows) =
   map unlinked (filter (\<lambda>p. gateway_payment_id p = Some key \<and> gateway p = gw) rows)"
  by (induction rows) (simp_all add: unlinked_def)

text \<open>
  After the end of a receiver the payment it was given is found again under the same
  identifier, with the mapped status, also when provisioning threw.
\<close>

lemma found_after_apply:
  assumes "find_payment gw key w = Some db"
  shows "\<exists>db1. find_payment gw key (state_of (applyWebhookStatus e db ns body w)) = Some db1
           \<and> status db1 = ns \<and> pay_id db1 = pay_id db"
proof (cases "ns = status db")
  case True
  then show ?thesis using assms by (simp add: applyWebhookStatus_def state_of_def)
next
  case False
  let ?P = "\<lambda>p. gateway_payment_id p = Some key \<and> gateway p = gw"
  let ?w1 = "state_of (applyWebhookStatus e db ns body w)"
  let ?f = "\<lambda>p. p\<lparr>status := ns,
              webhook_data := (case Some body of None \<Rightarrow> webhook_data p | Some x \<Rightarrow> Some x),
              paid_at := (if ns = Approved then Some (now e) else paid_at p)\<rparr>"
  have db: "filter ?P (payments w) = [db]"
    using assms by (simp add: find_payment_def single_eq_Some)
  have "map unlinked (filter ?P (payments ?w1)) = filter ?P (map unlinked (payments ?w1))"
    by (simp add: filter_unlinked)
  also have "\<dots> = filter ?P (map unlinked (payments (writeStatus e (pay_id db) ns (Some body) w)))"
    using False by (simp add: unlinked_applyWebhookStatus)
  also have "\<dots> = map unlinked (filter ?P (update_where (\<lambda>p. pay_id p = pay_id db) ?f (payments w)))"
    by (simp only: filter_unlinked payments_writeStatus)
  also have "\<dots> = map unlinked (update_where (\<lambda>p. pay_id p = pay_id db) ?f (filter ?P (payments w)))"
    by (subst filter_update_where) simp_all
  also have "\<dots> = [unlinked (?f db)]"
    by (simp add: db update_where_single)
  finally obtain db1 where d1: "filter ?P (payments ?w1) = [db1]" and u: "unlinked db1 = unlinked (?f db)"
    using map_eq_singleton by blast
  have "status (unlinked db1) = status (unlinked (?f db))"
    and "pay_id (unlinked db1) = pay_id (unlinked (?f db))"
    using u by simp_all
  then have "status db1 = ns \<and> pay_id db1 = pay_id db"
    by (simp add: unlinked_def)
  then show ?thesis using d1 by (simp add: find_payment_def single_eq_Some)
qed

lemma reconcile_second_noop:
  assumes c: "\<And>s r. cand s = Inr r \<Longrightarrow> cand r = Inr r"
  shows "state_of (reconcile gw cand e2 key body (state_of (reconcile gw cand e1 key body w)))
         = state_of (reconcile gw cand e1 key body w)"
proof (cases "find_payment gw key w")
  case None
  then show ?thesis by (simp add: reconcile_def state_of_simps)
next
  case (Some db)
  note f = this
  show ?thesis
  proof (cases "cand (status db)")
    case (Inl err)
    then show ?thesis using f by (simp add: reconcile_def state_of_simps)
  next
    case (Inr ns)
    let ?w1 = "state_of (applyWebhookStatus e1 db ns body w)"
    have w1: "reconcile gw cand e1 key body w = applyWebhookStatus e1 db ns body w"
      using f Inr by (simp add: reconcile_def)
    obtain db1 where d: "find_payment gw key ?w1 = Some db1" and s: "status db1 = ns"
      using found_after_apply [OF f] by blast
    have "cand ns = Inr ns" using c Inr by blast
    then have "reconcile gw cand e2 key body ?w1 = Inr (Response 200 (Text ''OK''), ?w1)"
      using d s by (simp add: reconcile_def applyWebhookStatus_def)
    then show ?thesis
      unfolding w1 by (simp add: state_of_simps)
  qed
qed

text \<open>
  A notification for a payment that is found and whose mapped status differs from the
  stored one: after the second delivery one status is written and, for \<^verbatim>\<open>approved\<close>, one
  provisioning is begun; the second delivery changes nothing and answers 200.
\<close>

lemma reconcile_twice:
  assumes f: "find_payment gw key w = Some db"
    and c: "cand (status db) = Inr ns"
    and n: "ns \<noteq> status db"
    and i: "cand ns = Inr ns"
  shows "reconcile gw cand e2 key body (state_of (reconcile gw cand e1 key body w)) =
           Inr (Response 200 (Text ''OK''), state_of (reconcile gw cand e1 key body w))
       \<and> written_once (pay_id db) ns w (state_of (reconcile gw cand e1 key body w))"
proof -
  let ?w1 = "state_of (applyWebhookStatus e1 db ns body w)"
  have w1: "reconcile gw cand e1 key body w = applyWebhookStatus e1 db ns body w"
    using f c by (simp add: reconcile_def)
  obtain db1 where d: "find_payment gw key ?w1 = Some db1" and s: "status db1 = ns"
    using found_after_apply [OF f] by blast
  have "reconcile gw cand e2 key body ?w1 = Inr (Response 200 (Text ''OK''), ?w1)"
    using d s i by (simp add: reconcile_def applyWebhookStatus_def)
  then show ?thesis
    unfolding w1 using applyWebhookStatus_once [OF n] by simp
qed

lemma chargeLoop_idem: "chargeLoop cs s = Inr r \<Longrightarrow> chargeLoop cs r = Inr r"
proof (induction cs arbitrary: s)
  case Nil
  then show ?case by simp
next
  case (Cons charge cs)
  then show ?case
    by (cases "js_member charge ''status''") (auto split: if_splits)
qed

lemma chargeLoop_returns: "chargeLoop cs s = Inr r \<Longrightarrow> \<exists>r'. chargeLoop cs s' = Inr r'"
proof (induction cs arbitrary: s s')
  case Nil
  then show ?case by simp
next
  case (Cons charge cs)
  then show ?case
    by (cases "js_member charge ''status''") (auto split: if_splits)
qed

lemma pagseguro_newStatus_idem:
  assumes "pagseguro_newStatus body ch s = Inr r"
  shows "pagseguro_newStatus body ch r = Inr r"
proof -
  obtain cs where cs: "js_iterate ch = Inr cs"
    using assms by (auto simp add: pagseguro_newStatus_def split: sum.splits)
  obtain x where x: "chargeLoop cs s = Inr x"
    using assms cs by (auto simp add: pagseguro_newStatus_def split: sum.splits)
  obtain y where y: "chargeLoop cs r = Inr y"
    using chargeLoop_returns [OF x] by blast
  show ?thesis
  proof (cases "opt_member (opt_first (opt_member (Some body) ''qr_codes'')) ''status''
                  = Some (JStr ''PAID'')")
    case True
    then show ?thesis using assms cs x y by (simp add: pagseguro_newStatus_def)
  next
    case False
    then have "r = x" using assms cs x by (simp add: pagseguro_newStatus_def)
    then show ?thesis using False cs chargeLoop_idem [OF x] by (simp add: pagseguro_newStatus_def)
  qed
qed

lemma pagarme_newStatus_idem:
  "pagarme_newStatus ev (pagarme_newStatus ev s) = pagarme_newStatus ev s"
  by (simp add: pagarme_newStatus_def)

lemma asaas_newStatus_idem:
  "asaas_newStatus ev (asaas_newStatus ev s) = asaas_newStatus ev s"
  by (simp add: asaas_newStatus_def)

lemma mercadopago_newStatus_idem:
  "mercadopago_newStatus st (mercadopago_newStatus st s) = mercadopago_newStatus st s"
  by (simp add: mercadopago_newStatus_def)

lemma pagseguro_shape:
  "(\<exists>err. \<forall>e w. webhook_pagseguro_try e payload w = Inl (err, w))
   \<or> (\<forall>e w. webhook_pagseguro_try e payload w = Inr (Response 200 (Text ''OK''), w))
   \<or> (\<exists>key body. \<forall>e w. webhook_pagseguro_try e payload w =
          reconcile ''pagseguro'' (pagseguro_newStatus body (chargesOf body)) e key body w)"
proof (cases payload)
  case None
  then show ?thesis by (simp add: webhook_pagseguro_try_def)
next
  case (Some body)
  note b = this
  show ?thesis
  proof (cases "js_member body ''id''")
    case (Inl err)
    then show ?thesis using b by (simp add: webhook_pagseguro_try_def)
  next
    case (Inr orderId)
    note o = this
    show ?thesis
    proof (cases "truthy orderId")
      case False
      then show ?thesis using b o
        by (cases orderId) (simp_all add: webhook_pagseguro_try_def Let_def)
    next
      case True
      then obtain oid where oid: "orderId = Some oid" by (cases orderId) auto
      show ?thesis
      proof (cases "toString oid")
        case (Inl err)
        then show ?thesis using b o oid True by (simp add: webhook_pagseguro_try_def Let_def)
      next
        case (Inr key)
        then have "\<forall>e w. webhook_pagseguro_try e payload w =
          reconcile ''pagseguro'' (pagseguro_newStatus body (chargesOf body)) e key body w"
          using b o oid True by (simp add: webhook_pagseguro_try_def Let_def reconcile_def)
        then show ?thesis by blast
      qed
    qed
  qed
qed

lemma pagarme_shape:
  "(\<exists>err. \<forall>e w. webhook_pagarme_try e payload w = Inl (err, w))
   \<or> (\<forall>e w. webhook_pagarme_try e payload w = Inr (Response 200 (Text ''OK''), w))
   \<or> (\<exists>key ev body. \<forall>e w. webhook_pagarme_try e payload w =
          reconcile ''pagarme'' (\<lambda>s. Inr (pagarme_newStatus ev s)) e key body w)"
proof (cases payload)
  case None
  then show ?thesis by (simp add: webhook_pagarme_try_def)
next
  case (Some body)
  note b = this
  show ?thesis
  proof (cases "js_member body ''type''")
    case (Inl err)
    then show ?thesis using b by (simp add: webhook_pagarme_try_def)
  next
    case (Inr eventType)
    note t = this
    show ?thesis
    proof (cases "truthy (opt_member (opt_member (Some body) ''data'') ''id'')")
      case False
      then show ?thesis using b t by (simp add: webhook_pagarme_try_def Let_def)
    next
      case True
      note tr = this
      then obtain orderId where oid: "opt_member (opt_member (Some body) ''data'') ''id'' = Some orderId"
        by (cases "opt_member (opt_member (Some body) ''data'') ''id''") auto
      show ?thesis
      proof (cases "\<exists>ev. eventType = Some (JStr ev) \<and> ev \<in> set relevantEvents")
        case False
        then have "\<forall>e w. webhook_pagarme_try e payload w = Inr (Response 200 (Text ''OK''), w)"
          using b t True
          by (auto simp add: webhook_pagarme_try_def Let_def split: option.splits json.splits)
        then show ?thesis by blast
      next
        case True
        then obtain ev where ev: "eventType = Some (JStr ev)" "ev \<in> set relevantEvents" by blast
        show ?thesis
        proof (cases "toString orderId")
          case (Inl err)
          then have "\<forall>e w. webhook_pagarme_try e payload w = Inl (err, w)"
            using b t oid ev tr by (simp add: webhook_pagarme_try_def Let_def)
          then show ?thesis by blast
        next
          case (Inr key)
          then have "\<forall>e w. webhook_pagarme_try e payload w =
              reconcile ''pagarme'' (\<lambda>s. Inr (pagarme_newStatus ev s)) e key body w"
            using b t oid ev tr
            by (simp add: webhook_pagarme_try_def Let_def reconcile_def split: option.splits)
          then show ?thesis by blast
        qed
      qed
    qed
  qed
qed

lemma asaas_shape:
  "(\<exists>err. \<forall>e w. webhook_asaas_try e payload w = Inl (err, w))
   \<or> (\<forall>e w. webhook_asaas_try e payload w = Inr (Response 200 (Text ''OK''), w))
   \<or> (\<exists>key ev body. \<forall>e w. webhook_asaas_try e payload w =
          reconcile ''asaas'' (\<lambda>s. Inr (asaas_newStatus ev s)) e key body w)"
proof (cases payload)
  case None
  then show ?thesis by (simp add: webhook_asaas_try_def)
next
  case (Some body)
  note b = this
  show ?thesis
  proof (cases "js_member body ''event''")
    case (Inl err)
    then show ?thesis using b by (simp add: webhook_asaas_try_def)
  next
    case (Inr eventType)
    note t = this
    show ?thesis
    proof (cases "truthy (opt_member (opt_member (Some body) ''payment'') ''id'')")
      case False
      then show ?thesis using b t by (simp add: webhook_asaas_try_def Let_def)
    next
      case True
      note tr = this
      then obtain orderId where oid: "opt_member (opt_member (Some body) ''payment'') ''id'' = Some orderId"
        by (cases "opt_member (opt_member (Some body) ''payment'') ''id''") auto
      show ?thesis
      proof (cases "\<exists>ev. eventType = Some (JStr ev) \<and> ev \<in> set paymentEvents")
        case False
        then have "\<forall>e w. webhook_asaas_try e payload w = Inr (Response 200 (Text ''OK''), w)"
          using b t True
          by (auto simp add: webhook_asaas_try_def Let_def split: option.splits json.splits)
        then show ?thesis by blast
      next
        case True
        then obtain ev where ev: "eventType = Some (JStr ev)" "ev \<in> set paymentEvents" by blast
        show ?thesis
        proof (cases "toString orderId")
          case (Inl err)
          then have "\<forall>e w. webhook_asaas_try e payload w = Inl (err, w)"
            using b t oid ev tr by (simp add: webhook_asaas_try_def Let_def)
          then show ?thesis by blast
        next
          case (Inr key)
          then have "\<forall>e w. webhook_asaas_try e payload w =
              reconcile ''asaas'' (\<lambda>s. Inr (asaas_newStatus ev s)) e key body w"
            using b t oid ev tr
            by (simp add: webhook_asaas_try_def Let_def reconcile_def split: option.splits)
          then show ?thesis by blast
        qed
      qed
    qed
  qed
qed

lemma pagarme_twice:
  "snd (redeliver webhook_pagarme e1 e2 req w) = snd (webhook_pagarme e1 req w)"
proof (cases req)
  case OPTIONS
  then show ?thesis by (simp add: webhook_pagarme_def redeliver_def)
next
  case (POST payload)
  consider (err) err where "\<forall>e w. webhook_pagarme_try e payload w = Inl (err, w)"
    | (ok) "\<forall>e w. webhook_pagarme_try e payload w = Inr (Response 200 (Text ''OK''), w)"
    | (rec) key ev body where
        "\<forall>e w. webhook_pagarme_try e payload w =
           reconcile ''pagarme'' (\<lambda>s. Inr (pagarme_newStatus ev s)) e key body w"
    using pagarme_shape [of payload] by blast
  then show ?thesis
  proof cases
    case err
    then show ?thesis using POST
      by (simp add: webhook_pagarme_def redeliver_def snd_respond state_of_simps)
  next
    case ok
    then show ?thesis using POST
      by (simp add: webhook_pagarme_def redeliver_def snd_respond state_of_simps)
  next
    case rec
    have "\<And>s r. Inr (pagarme_newStatus ev s) = (Inr r :: js_error + PaymentStatus)
                  \<Longrightarrow> Inr (pagarme_newStatus ev r) = (Inr r :: js_error + PaymentStatus)"
      using pagarme_newStatus_idem by auto
    then show ?thesis
      using POST rec
        reconcile_second_noop [of "\<lambda>s. Inr (pagarme_newStatus ev s)" "''pagarme''" e2 key body e1 w]
      by (simp add: webhook_pagarme_def redeliver_def snd_respond)
  qed
qed

lemma asaas_twice:
  "snd (redeliver webhook_asaas e1 e2 req w) = snd (webhook_asaas e1 req w)"
proof (cases req)
  case OPTIONS
  then show ?thesis by (simp add: webhook_asaas_def redeliver_def)
next
  case (POST payload)
  consider (err) err where "\<forall>e w. webhook_asaas_try e payload w = Inl (err, w)"
    | (ok) "\<forall>e w. webhook_asaas_try e payload w = Inr (Response 200 (Text ''OK''), w)"
    | (rec) key ev body where
        "\<forall>e w. webhook_asaas_try e payload w =
           reconcile ''asaas'' (\<lambda>s. Inr (asaas_newStatus ev s)) e key body w"
    using asaas_shape [of payload] by blast
  then show ?thesis
  proof cases
    case err
    then show ?thesis using POST
      by (simp add: webhook_asaas_def redeliver_def snd_respond state_of_simps)
  next
    case ok
    then show ?thesis using POST
      by (simp add: webhook_asaas_def redeliver_def snd_respond state_of_simps)
  next
    case rec
    have "\<And>s r. Inr (asaas_newStatus ev s) = (Inr r :: js_error + PaymentStatus)
                  \<Longrightarrow> Inr (asaas_newStatus ev r) = (Inr r :: js_error + PaymentStatus)"
      using asaas_newStatus_idem by auto
    then show ?thesis
      using POST rec
        reconcile_second_noop [of "\<lambda>s. Inr (asaas_newStatus ev s)" "''asaas''" e2 key body e1 w]
      by (simp add: webhook_asaas_def redeliver_def snd_respond)
  qed
qed

lemma pagseguro_twice:
  "snd (redeliver webhook_pagseguro e1 e2 req w) = snd (webhook_pagseguro e1 req w)"
proof (cases req)
  case OPTIONS
  then show ?thesis by (simp add: webhook_pagseguro_def redeliver_def)
next
  case (POST payload)
  consider (err) err where "\<forall>e w. webhook_pagseguro_try e payload w = Inl (err, w)"
    | (ok) "\<forall>e w. webhook_pagseguro_try e payload w = Inr (Response 200 (Text ''OK''), w)"
    | (rec) key body where
        "\<forall>e w. webhook_pagseguro_try e payload w =
           reconcile ''pagseguro'' (pagseguro_newStatus body (chargesOf body)) e key body w"
    using pagseguro_shape [of payload] by blast
  then show ?thesis
  proof cases
    case err
    then show ?thesis using POST
      by (simp add: webhook_pagseguro_def redeliver_def snd_respond state_of_simps)
  next
    case ok
    then show ?thesis using POST
      by (simp add: webhook_pagseguro_def redeliver_def snd_respond state_of_simps)
  next
    case rec
    show ?thesis
      using POST rec
        reconcile_second_noop [of "pagseguro_newStatus body (chargesOf body)" "''pagseguro''"
          e2 key body e1 w, OF pagseguro_newStatus_idem]
      by (simp add: webhook_pagseguro_def redeliver_def snd_respond)
  qed
qed

subsection \<open>Notifications that reach the end of a receiver\<close>

lemma asaas_delivers:
  assumes "js_member body ''event'' = Inr (Some (JStr ev))"
    and "ev \<in> set paymentEvents"
    and "opt_member (opt_member (Some body) ''payment'') ''id'' = Some (JStr gid)"
    and "gid \<noteq> []"
  shows "webhook_asaas_try e (Some body) w =
           reconcile ''asaas'' (\<lambda>s. Inr (asaas_newStatus ev s)) e gid body w"
  using assms by (simp add: webhook_asaas_try_def reconcile_def Let_def split: option.splits)

lemma pagarme_delivers:
  assumes "js_member body ''type'' = Inr (Some (JStr ev))"
    and "ev \<in> set relevantEvents"
    and "opt_member (opt_member (Some body) ''data'') ''id'' = Some (JStr gid)"
    and "gid \<noteq> []"
  shows "webhook_pagarme_try e (Some body) w =
           reconcile ''pagarme'' (\<lambda>s. Inr (pagarme_newStatus ev s)) e gid body w"
  using assms by (simp add: webhook_pagarme_try_def reconcile_def Let_def split: option.splits)

lemma pagseguro_delivers:
  assumes "js_member body ''id'' = Inr (Some (JStr gid))"
    and "gid \<noteq> []"
  shows "webhook_pagseguro_try e (Some body) w =
           reconcile ''pagseguro'' (pagseguro_newStatus body (chargesOf body)) e gid body w"
  using assms by (simp add: webhook_pagseguro_try_def reconcile_def Let_def)

lemma find_payment_trace: "find_payment gw key (w\<lparr>trace := t\<rparr>) = find_payment gw key w"
  by (simp add: find_payment_def)

lemma mercadopago_delivers:
  assumes "js_member body ''type'' = Inr ty"
    and "ty = Some (JStr ''payment'')
         \<or> opt_member (Some body) ''action'' = Some (JStr ''payment.created'')
         \<or> opt_member (Some body) ''action'' = Some (JStr ''payment.updated'')"
    and "opt_member (opt_member (Some body) ''data'') ''id'' = Some paymentId"
    and "truthy (Some paymentId)"
    and "toString paymentId = Inr gid"
    and "find_payment ''mercado_pago'' gid w = Some db"
    and "mercadopago_get e gid = Some mpPayment"
    and "js_member mpPayment ''status'' = Inr st"
  shows "webhook_mercadopago_try e (Some body) w =
           applyWebhookStatus e db (mercadopago_newStatus st (status db)) mpPayment
             (w\<lparr>trace := trace w @ [GatewayStatusLookup ''mercado_pago'' gid]\<rparr>)"
  using assms by (auto simp add: webhook_mercadopago_try_def Let_def)

lemma counts_lookup:
  "statusWrites (w\<lparr>trace := trace w @ [GatewayStatusLookup gw gid]\<rparr>) = statusWrites w"
  "provisionings (w\<lparr>trace := trace w @ [GatewayStatusLookup gw gid]\<rparr>) = provisionings w"
  by (simp_all add: statusWrites_def provisionings_def)

lemma found_after_reconcile:
  assumes "find_payment gw key w = Some db"
    and "cand (status db) = Inr ns"
  shows "\<exists>db1. find_payment gw key (state_of (reconcile gw cand e key body w)) = Some db1
           \<and> status db1 = ns \<and> pay_id db1 = pay_id db"
  using assms found_after_apply [OF assms(1), of e ns body] by (simp add: reconcile_def)

lemma pagarme_once:
  assumes "js_member body ''type'' = Inr (Some (JStr ev))"
    and "ev \<in> set relevantEvents"
    and "opt_member (opt_member (Some body) ''data'') ''id'' = Some (JStr gid)"
    and "gid \<noteq> []"
    and f: "find_payment ''pagarme'' gid w = Some db"
    and n: "pagarme_newStatus ev (status db) \<noteq> status db"
  shows "written_once (pay_id db) (pagarme_newStatus ev (status db)) w
           (snd (redeliver webhook_pagarme e1 e2 (POST (Some body)) w))
       \<and> fst (redeliver webhook_pagarme e1 e2 (POST (Some body)) w) = Response 200 (Text ''OK'')"
proof -
  let ?cand = "\<lambda>s. (Inr (pagarme_newStatus ev s) :: js_error + PaymentStatus)"
  have t: "\<And>e w. webhook_pagarme_try e (Some body) w = reconcile ''pagarme'' ?cand e gid body w"
    using pagarme_delivers [OF assms(1-4)] by simp
  have "?cand (status db) = Inr (pagarme_newStatus ev (status db))"
    and "?cand (pagarme_newStatus ev (status db)) = Inr (pagarme_newStatus ev (status db))"
    by (simp_all add: pagarme_newStatus_idem)
  from reconcile_twice [OF f this(1) n this(2), of e2 body e1]
  show ?thesis
    by (simp add: redeliver_def webhook_pagarme_def snd_respond t respond_simps)
qed

lemma asaas_once:
  assumes "js_member body ''event'' = Inr (Some (JStr ev))"
    and "ev \<in> set paymentEvents"
    and "opt_member (opt_member (Some body) ''payment'') ''id'' = Some (JStr gid)"
    and "gid \<noteq> []"
    and f: "find_payment ''asaas'' gid w = Some db"
    and n: "asaas_newStatus ev (status db) \<noteq> status db"
  shows "written_once (pay_id db) (asaas_newStatus ev (status db)) w
           (snd (redeliver webhook_asaas e1 e2 (POST (Some body)) w))
       \<and> fst (redeliver webhook_asaas e1 e2 (POST (Some body)) w) = Response 200 (Text ''OK'')"
proof -
  let ?cand = "\<lambda>s. (Inr (asaas_newStatus ev s) :: js_error + PaymentStatus)"
  have t: "\<And>e w. webhook_asaas_try e (Some body) w = reconcile ''asaas'' ?cand e gid body w"
    using asaas_delivers [OF assms(1-4)] by simp
  have "?cand (status db) = Inr (asaas_newStatus ev (status db))"
    and "?cand (asaas_newStatus ev (status db)) = Inr (asaas_newStatus ev (status db))"
    by (simp_all add: asaas_newStatus_idem)
  from reconcile_twice [OF f this(1) n this(2), of e2 body e1]
  show ?thesis
    by (simp add: redeliver_def webhook_asaas_def snd_respond t respond_simps)
qed

lemma pagseguro_once:
  assumes "js_member body ''id'' = Inr (Some (JStr gid))"
    and "gid \<noteq> []"
    and f: "find_payment ''pagseguro'' gid w = Some db"
    and c: "pagseguro_newStatus body (chargesOf body) (status db) = Inr ns"
    and n: "ns \<noteq> status db"
  shows "written_once (pay_id db) ns w
           (snd (redeliver webhook_pagseguro e1 e2 (POST (Some body)) w))
       \<and> fst (redeliver webhook_pagseguro e1 e2 (POST (Some body)) w) = Response 200 (Text ''OK'')"
proof -
  have t: "\<And>e w. webhook_pagseguro_try e (Some body) w =
      reconcile ''pagseguro'' (pagseguro_newStatus body (chargesOf body)) e gid body w"
    using pagseguro_delivers [OF assms(1,2)] by simp
  from reconcile_twice [OF f c n pagseguro_newStatus_idem [OF c], of e2 body e1]
  show ?thesis
    by (simp add: redeliver_def webhook_pagseguro_def snd_respond t respond_simps)
qed

lemma mercadopago_once:
  assumes b: "js_member body ''type'' = Inr ty"
    "ty = Some (JStr ''payment'')
         \<or> opt_member (Some body) ''action'' = Some (JStr ''payment.created'')
         \<or> opt_member (Some body) ''action'' = Some (JStr ''payment.updated'')"
    "opt_member (opt_member (Some body) ''data'') ''id'' = Some paymentId"
    "truthy (Some paymentId)"
    "toString paymentId = Inr gid"
    and f: "find_payment ''mercado_pago'' gid w = Some db"
    and g1: "mercadopago_get e1 gid = Some mp1" "js_member mp1 ''status'' = Inr st"
    and g2: "mercadopago_get e2 gid = Some mp2" "js_member mp2 ''status'' = Inr st"
    and n: "mercadopago_newStatus st (status db) \<noteq> status db"
  shows "written_once (pay_id db) (mercadopago_newStatus st (status db)) w
           (snd (redeliver webhook_mercadopago e1 e2 (POST (Some body)) w))
       \<and> fst (redeliver webhook_mercadopago e1 e2 (POST (Some body)) w) = Response 200 (Text ''OK'')
       \<and> (snd (webhook_mercadopago e1 (POST (Some body)) w))
             \<lparr>trace := trace (snd (webhook_mercadopago e1 (POST (Some body)) w))
                         @ [GatewayStatusLookup ''mercado_pago'' gid]\<rparr>
           = snd (redeliver webhook_mercadopago e1 e2 (POST (Some body)) w)"
proof -
  let ?ns = "mercadopago_newStatus st (status db)"
  let ?w0 = "w\<lparr>trace := trace w @ [GatewayStatusLookup ''mercado_pago'' gid]\<rparr>"
  let ?w1 = "state_of (applyWebhookStatus e1 db ?ns mp1 ?w0)"
  let ?w2 = "?w1\<lparr>trace := trace ?w1 @ [GatewayStatusLookup ''mercado_pago'' gid]\<rparr>"
  have first: "webhook_mercadopago_try e1 (Some body) w = applyWebhookStatus e1 db ?ns mp1 ?w0"
    using mercadopago_delivers [OF b f g1] .
  have f0: "find_payment ''mercado_pago'' gid ?w0 = Some db"
    using f by (simp add: find_payment_trace)
  obtain db1 where d: "find_payment ''mercado_pago'' gid ?w1 = Some db1" and s: "status db1 = ?ns"
    using found_after_apply [OF f0] by blast
  have "webhook_mercadopago_try e2 (Some body) ?w1 =
      applyWebhookStatus e2 db1 (mercadopago_newStatus st (status db1)) mp2 ?w2"
    using mercadopago_delivers [OF b d g2] .
  also have "mercadopago_newStatus st (status db1) = status db1"
    using s by (simp add: mercadopago_newStatus_idem)
  finally have second: "webhook_mercadopago_try e2 (Some body) ?w1 = Inr (Response 200 (Text ''OK''), ?w2)"
    by (simp add: applyWebhookStatus_same)
  have "written_once (pay_id db) ?ns ?w0 ?w1"
    using applyWebhookStatus_once [OF n] .
  then have "written_once (pay_id db) ?ns w ?w2"
    by (simp add: written_once_def statusWrites_def provisionings_def)
  then show ?thesis
    by (simp add: redeliver_def webhook_mercadopago_def snd_respond first second respond_simps)
qed

lemmas ex_defs = ex_plan_def ex_profile_def ex_payment_def ex_settings_def ex_world_def ex_env_def

lemma ex_find_payment:
  "find_payment gw ''ext-1'' (ex_world gw st cid d) = Some (ex_payment gw st cid)"
  by (simp add: find_payment_def single_def ex_world_def ex_payment_def)

lemma ex_counts:
  "statusWrites (ex_world gw st cid d) = []"
  "provisionings (ex_world gw st cid d) = []"
  by (simp_all add: statusWrites_def provisionings_def ex_world_def)

lemma ex_payment_fields:
  "pay_id (ex_payment gw st cid) = ''pay-1''"
  "status (ex_payment gw st cid) = st"
  by (simp_all add: ex_payment_def)

lemma ex_mercadopago_get:
  "mercadopago_get ex_env gid = Some (JObj [(''status'', JStr ''approved'')])"
  "mercadopago_get (ex_env_mp st) gid = Some (JObj [(''status'', JStr st)])"
  by (simp_all add: ex_env_def ex_env_mp_def)

text \<open>
  C5. A second delivery of the same webhook request to the receiver of Pagar.me, PagSeguro
  or Asaas, at any later time, leaves the state as the first delivery left it: no status is
  written again, \<^verbatim>\<open>handlePaymentApproved\<close> is not entered again, no row changes. When the
  notification is for a payment that is found and maps to a status other than the stored
  one, the two deliveries together write that status exactly once and enter
  \<^verbatim>\<open>handlePaymentApproved\<close> exactly once when the status is \<^verbatim>\<open>approved\<close> (not at all
  otherwise), and the second delivery is answered 200; this holds also when provisioning
  threw in the first delivery, which was then answered 500 with the status written. The
  receiver of Mercado Pago maps the status that the gateway reports when asked: when the
  gateway reports the same status at both deliveries, the same holds of it, and the second
  delivery changes nothing but the trace, to which it adds its question to the gateway.
\<close>

theorem duplicate_delivery_is_noop:
  "snd (redeliver webhook_pagarme e1 e2 req w) = snd (webhook_pagarme e1 req w)
   \<and> snd (redeliver webhook_pagseguro e1 e2 req w) = snd (webhook_pagseguro e1 req w)
   \<and> snd (redeliver webhook_asaas e1 e2 req w) = snd (webhook_asaas e1 req w)
   \<and> (js_member body ''type'' = Inr (Some (JStr ev)) \<and> ev \<in> set relevantEvents
      \<and> opt_member (opt_member (Some body) ''data'') ''id'' = Some (JStr gid) \<and> gid \<noteq> []
      \<and> find_payment ''pagarme'' gid w = Some db
      \<and> pagarme_newStatus ev (status db) \<noteq> status db
    \<longrightarrow> written_once (pay_id db) (pagarme_newStatus ev (status db)) w
          (snd (redeliver webhook_pagarme e1 e2 (POST (Some body)) w))
        \<and> fst (redeliver webhook_pagarme e1 e2 (POST (Some body)) w)
            = Response 200 (Text ''OK''))
   \<and> (js_member body ''id'' = Inr (Some (JStr gid)) \<and> gid \<noteq> []
      \<and> find_payment ''pagseguro'' gid w = Some db
      \<and> pagseguro_newStatus body (chargesOf body) (status db) = Inr ns
      \<and> ns \<noteq> status db
    \<longrightarrow> written_once (pay_id db) ns w
          (snd (redeliver webhook_pagseguro e1 e2 (POST (Some body)) w))
        \<and> fst (redeliver webhook_pagseguro e1 e2 (POST (Some body)) w)
            = Response 200 (Text ''OK''))
   \<and> (js_member body ''event'' = Inr (Some (JStr ev)) \<and> ev \<in> set paymentEvents
      \<and> opt_member (opt_member (Some body) ''payment'') ''id'' = Some (JStr gid) \<and> gid \<noteq> []
      \<and> find_payment ''asaas'' gid w = Some db
      \<and> asaas_newStatus ev (status db) \<noteq> status db
    \<longrightarrow> written_once (pay_id db) (asaas_newStatus ev (status db)) w
          (snd (redeliver webhook_asaas e1 e2 (POST (Some body)) w))
        \<and> fst (redeliver webhook_asaas e1 e2 (POST (Some body)) w)
            = Response 200 (Text ''OK''))
   \<and> (js_member body ''type'' = Inr ty
      \<and> (ty = Some (JStr ''payment'')
         \<or> opt_member (Some body) ''action'' = Some (JStr ''payment.created'')
         \<or> opt_member (Some body) ''action'' = Some (JStr ''payment.updated''))
      \<and> opt_member (opt_member (Some body) ''data'') ''id'' = Some paymentId
      \<and> truthy (Some paymentId) \<and> toString paymentId = Inr gid
      \<and> find_payment ''mercado_pago'' gid w = Some db
      \<and> mercadopago_get e1 gid = Some mp1 \<and> js_member mp1 ''status'' = Inr st
      \<and> mercadopago_get e2 gid = Some mp2 \<and> js_member mp2 ''status'' = Inr st
      \<and> mercadopago_newStatus st (status db) \<noteq> status db
    \<longrightarrow> written_once (pay_id db) (mercadopago_newStatus st (status db)) w
          (snd (redeliver webhook_mercadopago e1 e2 (POST (Some body)) w))
        \<and> fst (redeliver webhook_mercadopago e1 e2 (POST (Some body)) w)
            = Response 200 (Text ''OK'')
        \<and> (snd (webhook_mercadopago e1 (POST (Some body)) w))
              \<lparr>trace := trace (snd (webhook_mercadopago e1 (POST (Some body)) w))
                          @ [GatewayStatusLookup ''mercado_pago'' gid]\<rparr>
            = snd (redeliver webhook_mercadopago e1 e2 (POST (Some body)) w))"
proof (intro conjI)
  show "snd (redeliver webhook_pagarme e1 e2 req w) = snd (webhook_pagarme e1 req w)"
    by (rule pagarme_twice)
  show "snd (redeliver webhook_pagseguro e1 e2 req w) = snd (webhook_pagseguro e1 req w)"
    by (rule pagseguro_twice)
  show "snd (redeliver webhook_asaas e1 e2 req w) = snd (webhook_asaas e1 req w)"
    by (rule asaas_twice)
  show "js_member body ''type'' = Inr (Some (JStr ev)) \<and> ev \<in> set relevantEvents
      \<and> opt_member (opt_member (Some body) ''data'') ''id'' = Some (JStr gid) \<and> gid \<noteq> []
      \<and> find_payment ''pagarme'' gid w = Some db
      \<and> pagarme_newStatus ev (status db) \<noteq> status db
    \<longrightarrow> written_once (pay_id db) (pagarme_newStatus ev (status db)) w
          (snd (redeliver webhook_pagarme e1 e2 (POST (Some body)) w))
        \<and> fst (redeliver webhook_pagarme e1 e2 (POST (Some body)) w)
            = Response 200 (Text ''OK'')"
    using pagarme_once [of body ev gid w db e1 e2] by blast
  show "js_member body ''id'' = Inr (Some (JStr gid)) \<and> gid \<noteq> []
      \<and> find_payment ''pagseguro'' gid w = Some db
      \<and> pagseguro_newStatus body (chargesOf body) (status db) = Inr ns
      \<and> ns \<noteq> status db
    \<longrightarrow> written_once (pay_id db) ns w
          (snd (redeliver webhook_pagseguro e1 e2 (POST (Some body)) w))
        \<and> fst (redeliver webhook_pagseguro e1 e2 (POST (Some body)) w)
            = Response 200 (Text ''OK'')"
    using pagseguro_once [of body gid w db ns e1 e2] by blast
  show "js_member body ''event'' = Inr (Some (JStr ev)) \<and> ev \<in> set paymentEvents
      \<and> opt_member (opt_member (Some body) ''payment'') ''id'' = Some (JStr gid) \<and> gid \<noteq> []
      \<and> find_payment ''asaas'' gid w = Some db
      \<and> asaas_newStatus ev (status db) \<noteq> status db
    \<longrightarrow> written_once (pay_id db) (asaas_newStatus ev (status db)) w
          (snd (redeliver webhook_asaas e1 e2 (POST (Some body)) w))
        \<and> fst (redeliver webhook_asaas e1 e2 (POST (Some body)) w)
            = Response 200 (Text ''OK'')"
    using asaas_once [of body ev gid w db e1 e2] by blast
  show "js_member body ''type'' = Inr ty
      \<and> (ty = Some (JStr ''payment'')
         \<or> opt_member (Some body) ''action'' = Some (JStr ''payment.created'')
         \<or> opt_member (Some body) ''action'' = Some (JStr ''payment.updated''))
      \<and> opt_member (opt_member (Some body) ''data'') ''id'' = Some paymentId
      \<and> truthy (Some paymentId) \<and> toString paymentId = Inr gid
      \<and> find_payment ''mercado_pago'' gid w = Some db
      \<and> mercadopago_get e1 gid = Some mp1 \<and> js_member mp1 ''status'' = Inr st
      \<and> mercadopago_get e2 gid = Some mp2 \<and> js_member mp2 ''status'' = Inr st
      \<and> mercadopago_newStatus st (status db) \<noteq> status db
    \<longrightarrow> written_once (pay_id db) (mercadopago_newStatus st (status db)) w
          (snd (redeliver webhook_mercadopago e1 e2 (POST (Some body)) w))
        \<and> fst (redeliver webhook_mercadopago e1 e2 (POST (Some body)) w)
            = Response 200 (Text ''OK'')
        \<and> (snd (webhook_mercadopago e1 (POST (Some body)) w))
              \<lparr>trace := trace (snd (webhook_mercadopago e1 (POST (Some body)) w))
                          @ [GatewayStatusLookup ''mercado_pago'' gid]\<rparr>
            = snd (redeliver webhook_mercadopago e1 e2 (POST (Some body)) w)"
    using mercadopago_once [of body ty paymentId gid w db e1 mp1 st e2 mp2] by blast
qed

text \<open>
  A confirmation delivered twice for a pending payment, at each of the four receivers
  (\<^verbatim>\<open>order.paid\<close>, a paid charge, \<^verbatim>\<open>PAYMENT_CONFIRMED\<close>, and Mercado Pago reporting
  \<^verbatim>\<open>approved\<close>): one status write, one provisioning.
\<close>

theorem duplicate_delivery_is_noop_witness:
  "statusWrites (snd (redeliver webhook_pagarme ex_env ex_env
       (POST (Some (ex_pagarme_event ''order.paid''))) (ex_world ''pagarme'' Pending None None)))
     = [StatusWrite ''pay-1'' Approved]
   \<and> provisionings (snd (redeliver webhook_pagarme ex_env ex_env
       (POST (Some (ex_pagarme_event ''order.paid''))) (ex_world ''pagarme'' Pending None None)))
     = [ProvisioningInvoked ''pay-1'']
   \<and> statusWrites (snd (redeliver webhook_pagseguro ex_env ex_env
       (POST (Some (ex_pagseguro_order ''PAID''))) (ex_world ''pagseguro'' Pending None None)))
     = [StatusWrite ''pay-1'' Approved]
   \<and> provisionings (snd (redeliver webhook_pagseguro ex_env ex_env
       (POST (Some (ex_pagseguro_order ''PAID''))) (ex_world ''pagseguro'' Pending None None)))
     = [ProvisioningInvoked ''pay-1'']
   \<and> statusWrites (snd (redeliver webhook_asaas ex_env ex_env
       (POST (Some (ex_asaas_event ''PAYMENT_CONFIRMED''))) (ex_world ''asaas'' Pending None None)))
     = [StatusWrite ''pay-1'' Approved]
   \<and> provisionings (snd (redeliver webhook_asaas ex_env ex_env
       (POST (Some (ex_asaas_event ''PAYMENT_CONFIRMED''))) (ex_world ''asaas'' Pending None None)))
     = [ProvisioningInvoked ''pay-1'']
   \<and> statusWrites (snd (redeliver webhook_mercadopago ex_env ex_env
       (POST (Some ex_mercadopago_event)) (ex_world ''mercado_pago'' Pending None None)))
     = [StatusWrite ''pay-1'' Approved]
   \<and> provisionings (snd (redeliver webhook_mercadopago ex_env ex_env
       (POST (Some ex_mercadopago_event)) (ex_world ''mercado_pago'' Pending None None)))
     = [ProvisioningInvoked ''pay-1'']"
  using
    duplicate_delivery_is_noop [where body = "ex_pagarme_event ''order.paid''"
      and req = "POST (Some (ex_pagarme_event ''order.paid''))"
      and ev = "''order.paid''" and gid = "''ext-1''" and ns = Approved
      and w = "ex_world ''pagarme'' Pending None None"
      and db = "ex_payment ''pagarme'' Pending None" and ?e1.0 = ex_env and ?e2.0 = ex_env
      and ty = "Some (JStr ''payment'')" and paymentId = "JStr ''ext-1''"
      and ?mp1.0 = "JObj [(''status'', JStr ''approved'')]"
      and ?mp2.0 = "JObj [(''status'', JStr ''approved'')]"
      and st = "Some (JStr ''approved'')",
      THEN conjunct2, THEN conjunct2, THEN conjunct2]
    duplicate_delivery_is_noop [where body = "ex_pagseguro_order ''PAID''"
      and req = "POST (Some (ex_pagseguro_order ''PAID''))"
      and ev = "''PAID''" and gid = "''ext-1''" and ns = Approved
      and w = "ex_world ''pagseguro'' Pending None None"
      and db = "ex_payment ''pagseguro'' Pending None" and ?e1.0 = ex_env and ?e2.0 = ex_env
      and ty = "Some (JStr ''payment'')" and paymentId = "JStr ''ext-1''"
      and ?mp1.0 = "JObj [(''status'', JStr ''approved'')]"
      and ?mp2.0 = "JObj [(''status'', JStr ''approved'')]"
      and st = "Some (JStr ''approved'')",
      THEN conjunct2, THEN conjunct2, THEN conjunct2]
    duplicate_delivery_is_noop [where body = "ex_asaas_event ''PAYMENT_CONFIRMED''"
      and req = "POST (Some (ex_asaas_event ''PAYMENT_CONFIRMED''))"
      and ev = "''PAYMENT_CONFIRMED''" and gid = "''ext-1''" and ns = Approved
      and w = "ex_world ''asaas'' Pending None None"
      and db = "ex_payment ''asaas'' Pending None" and ?e1.0 = ex_env and ?e2.0 = ex_env
      and ty = "Some (JStr ''payment'')" and paymentId = "JStr ''ext-1''"
      and ?mp1.0 = "JObj [(''status'', JStr ''approved'')]"
      and ?mp2.0 = "JObj [(''status'', JStr ''approved'')]"
      and st = "Some (JStr ''approved'')",
      THEN conjunct2, THEN conjunct2, THEN conjunct2]
    duplicate_delivery_is_noop [where body = "ex_mercadopago_event"
      and req = "POST (Some (ex_mercadopago_event))"
      and ev = "''payment''" and gid = "''ext-1''" and ns = Approved
      and w = "ex_world ''mercado_pago'' Pending None None"
      and db = "ex_payment ''mercado_pago'' Pending None" and ?e1.0 = ex_env and ?e2.0 = ex_env
      and ty = "Some (JStr ''payment'')" and paymentId = "JStr ''ext-1''"
      and ?mp1.0 = "JObj [(''status'', JStr ''approved'')]"
      and ?mp2.0 = "JObj [(''status'', JStr ''approved'')]"
      and st = "Some (JStr ''approved'')",
      THEN conjunct2, THEN conjunct2, THEN conjunct2]
  by (simp add: ex_find_payment ex_counts ex_payment_fields ex_mercadopago_get
      ex_pagarme_event_def ex_asaas_event_def ex_pagseguro_order_def ex_mercadopago_event_def
      own_def paymentEvents_def relevantEvents_def asaas_newStatus_def pagarme_newStatus_def
      pagseguro_newStatus_def chargesOf_def mercadopago_newStatus_def written_once_def)

subsection \<open>What a receiver does to the stored status\<close>

lemma asaas_newStatus_not_pending:
  "ev \<in> set paymentEvents \<Longrightarrow> asaas_newStatus ev s \<noteq> Pending"
  by (auto simp add: asaas_newStatus_def paymentEvents_def)

lemma pagarme_newStatus_not_pending:
  "ev \<in> set relevantEvents \<Longrightarrow> pagarme_newStatus ev s \<noteq> Pending"
  by (auto simp add: pagarme_newStatus_def relevantEvents_def)

lemma chargeLoop_pending: "chargeLoop cs s = Inr Pending \<Longrightarrow> s = Pending"
proof (induction cs arbitrary: s)
  case Nil
  then show ?case by simp
next
  case (Cons charge cs)
  then show ?case
    by (cases "js_member charge ''status''") (auto split: if_splits)
qed

lemma pagseguro_newStatus_pending:
  "pagseguro_newStatus body ch s = Inr Pending \<Longrightarrow> s = Pending"
  by (auto simp add: pagseguro_newStatus_def split: sum.splits if_splits dest: chargeLoop_pending)

lemma asaas_stores:
  assumes "js_member body ''event'' = Inr (Some (JStr ev))"
    and "ev \<in> set paymentEvents"
    and "opt_member (opt_member (Some body) ''payment'') ''id'' = Some (JStr gid)"
    and "gid \<noteq> []"
    and f: "find_payment ''asaas'' gid w = Some db"
  shows "\<exists>db1. find_payment ''asaas'' gid (snd (webhook_asaas e (POST (Some body)) w)) = Some db1
           \<and> pay_id db1 = pay_id db
           \<and> status db1 = asaas_newStatus ev (status db) \<and> status db1 \<noteq> Pending"
proof -
  let ?cand = "\<lambda>s. (Inr (asaas_newStatus ev s) :: js_error + PaymentStatus)"
  from found_after_reconcile [where cand = ?cand and ns = "asaas_newStatus ev (status db)"
      and e = e and body = body, OF f]
  show ?thesis
    using asaas_newStatus_not_pending [OF assms(2), of "status db"]
    by (auto simp add: webhook_asaas_def snd_respond asaas_delivers [OF assms(1-4)])
qed

lemma pagarme_stores:
  assumes "js_member body ''type'' = Inr (Some (JStr ev))"
    and "ev \<in> set relevantEvents"
    and "opt_member (opt_member (Some body) ''data'') ''id'' = Some (JStr gid)"
    and "gid \<noteq> []"
    and f: "find_payment ''pagarme'' gid w = Some db"
  shows "\<exists>db1. find_payment ''pagarme'' gid (snd (webhook_pagarme e (POST (Some body)) w)) = Some db1
           \<and> pay_id db1 = pay_id db
           \<and> status db1 = pagarme_newStatus ev (status db) \<and> status db1 \<noteq> Pending"
proof -
  let ?cand = "\<lambda>s. (Inr (pagarme_newStatus ev s) :: js_error + PaymentStatus)"
  from found_after_reconcile [where cand = ?cand and ns = "pagarme_newStatus ev (status db)"
      and e = e and body = body, OF f]
  show ?thesis
    using pagarme_newStatus_not_pending [OF assms(2), of "status db"]
    by (auto simp add: webhook_pagarme_def snd_respond pagarme_delivers [OF assms(1-4)])
qed

lemma pagseguro_stores:
  assumes "js_member body ''id'' = Inr (Some (JStr gid))"
    and "gid \<noteq> []"
    and f: "find_payment ''pagseguro'' gid w = Some db"
    and c: "pagseguro_newStatus body (chargesOf body) (status db) = Inr ns"
  shows "\<exists>db1. find_payment ''pagseguro'' gid (snd (webhook_pagseguro e (POST (Some body)) w)) = Some db1
           \<and> pay_id db1 = pay_id db
           \<and> status db1 = ns \<and> (ns = Pending \<longrightarrow> status db = Pending)"
proof -
  from found_after_reconcile [where cand = "pagseguro_newStatus body (chargesOf body)"
      and ns = ns and e = e and body = body, OF f c]
  show ?thesis
    using pagseguro_newStatus_pending [of body "chargesOf body" "status db"] c
    by (auto simp add: webhook_pagseguro_def snd_respond pagseguro_delivers [OF assms(1,2)])
qed

lemma mercadopago_stores:
  assumes b: "js_member body ''type'' = Inr ty"
    "ty = Some (JStr ''payment'')
         \<or> opt_member (Some body) ''action'' = Some (JStr ''payment.created'')
         \<or> opt_member (Some body) ''action'' = Some (JStr ''payment.updated'')"
    "opt_member (opt_member (Some body) ''data'') ''id'' = Some paymentId"
    "truthy (Some paymentId)"
    "toString paymentId = Inr gid"
    and f: "find_payment ''mercado_pago'' gid w = Some db"
    and g: "mercadopago_get e gid = Some mpPayment" "js_member mpPayment ''status'' = Inr st"
  shows "\<exists>db1. find_payment ''mercado_pago'' gid
                 (snd (webhook_mercadopago e (POST (Some body)) w)) = Some db1
           \<and> pay_id db1 = pay_id db
           \<and> status db1 = mercadopago_newStatus st (status db)"
proof -
  let ?w0 = "w\<lparr>trace := trace w @ [GatewayStatusLookup ''mercado_pago'' gid]\<rparr>"
  have f0: "find_payment ''mercado_pago'' gid ?w0 = Some db"
    using f by (simp add: find_payment_trace)
  from found_after_apply [OF f0, of e "mercadopago_newStatus st (status db)" mpPayment]
  show ?thesis
    by (auto simp add: webhook_mercadopago_def snd_respond mercadopago_delivers [OF b f g])
qed

text \<open>
  C1, as the receivers have it. A notification that reaches the end of a receiver for a
  payment found in the database leaves that payment with the mapped status, whatever the
  stored status was: there is no order of precedence among the statuses, and only a mapped
  status equal to the stored one leaves the row alone. This holds also when provisioning
  throws, for the status is written before. For Asaas and Pagar.me the mapped status is
  the one the event type stands for, never \<^verbatim>\<open>pending\<close>; for PagSeguro it is what the charges
  and the first QR code give, \<^verbatim>\<open>pending\<close> only when the body says nothing and the stored
  status is \<^verbatim>\<open>pending\<close> already; for Mercado Pago it is what the status reported by the
  gateway stands for, which is \<^verbatim>\<open>pending\<close> for the reports \<^verbatim>\<open>pending\<close>, \<^verbatim>\<open>in_process\<close> and
  \<^verbatim>\<open>authorized\<close>.
\<close>

theorem webhook_overwrites_without_precedence:
  "(js_member body ''event'' = Inr (Some (JStr ev)) \<and> ev \<in> set paymentEvents
      \<and> opt_member (opt_member (Some body) ''payment'') ''id'' = Some (JStr gid) \<and> gid \<noteq> []
      \<and> find_payment ''asaas'' gid w = Some db
    \<longrightarrow> (\<exists>db1. find_payment ''asaas'' gid (snd (webhook_asaas e (POST (Some body)) w)) = Some db1
           \<and> pay_id db1 = pay_id db
           \<and> status db1 = asaas_newStatus ev (status db) \<and> status db1 \<noteq> Pending))
   \<and> (js_member body ''type'' = Inr (Some (JStr ev)) \<and> ev \<in> set relevantEvents
      \<and> opt_member (opt_member (Some body) ''data'') ''id'' = Some (JStr gid) \<and> gid \<noteq> []
      \<and> find_payment ''pagarme'' gid w = Some db
    \<longrightarrow> (\<exists>db1. find_payment ''pagarme'' gid (snd (webhook_pagarme e (POST (Some body)) w)) = Some db1
           \<and> pay_id db1 = pay_id db
           \<and> status db1 = pagarme_newStatus ev (status db) \<and> status db1 \<noteq> Pending))
   \<and> (js_member body ''id'' = Inr (Some (JStr gid)) \<and> gid \<noteq> []
      \<and> find_payment ''pagseguro'' gid w = Some db
      \<and> pagseguro_newStatus body (chargesOf body) (status db) = Inr ns
    \<longrightarrow> (\<exists>db1. find_payment ''pagseguro'' gid (snd (webhook_pagseguro e (POST (Some body)) w)) = Some db1
           \<and> pay_id db1 = pay_id db
           \<and> status db1 = ns \<and> (ns = Pending \<longrightarrow> status db = Pending)))
   \<and> (js_member body ''type'' = Inr ty
      \<and> (ty = Some (JStr ''payment'')
         \<or> opt_member (Some body) ''action'' = Some (JStr ''payment.created'')
         \<or> opt_member (Some body) ''action'' = Some (JStr ''payment.updated''))
      \<and> opt_member (opt_member (Some body) ''data'') ''id'' = Some paymentId
      \<and> truthy (Some paymentId) \<and> toString paymentId = Inr gid
      \<and> find_payment ''mercado_pago'' gid w = Some db
      \<and> mercadopago_get e gid = Some mpPayment \<and> js_member mpPayment ''status'' = Inr st
    \<longrightarrow> (\<exists>db1. find_payment ''mercado_pago'' gid
                  (snd (webhook_mercadopago e (POST (Some body)) w)) = Some db1
           \<and> pay_id db1 = pay_id db
           \<and> status db1 = mercadopago_newStatus st (status db)))"
proof (intro conjI)
  show "js_member body ''event'' = Inr (Some (JStr ev)) \<and> ev \<in> set paymentEvents
      \<and> opt_member (opt_member (Some body) ''payment'') ''id'' = Some (JStr gid) \<and> gid \<noteq> []
      \<and> find_payment ''asaas'' gid w = Some db
    \<longrightarrow> (\<exists>db1. find_payment ''asaas'' gid (snd (webhook_asaas e (POST (Some body)) w)) = Some db1
           \<and> pay_id db1 = pay_id db
           \<and> status db1 = asaas_newStatus ev (status db) \<and> status db1 \<noteq> Pending)"
    using asaas_stores [of body ev gid w db e] by blast
  show "js_member body ''type'' = Inr (Some (JStr ev)) \<and> ev \<in> set relevantEvents
      \<and> opt_member (opt_member (Some body) ''data'') ''id'' = Some (JStr gid) \<and> gid \<noteq> []
      \<and> find_payment ''pagarme'' gid w = Some db
    \<longrightarrow> (\<exists>db1. find_payment ''pagarme'' gid (snd (webhook_pagarme e (POST (Some body)) w)) = Some db1
           \<and> pay_id db1 = pay_id db
           \<and> status db1 = pagarme_newStatus ev (status db) \<and> status db1 \<noteq> Pending)"
    using pagarme_stores [of body ev gid w db e] by blast
  show "js_member body ''id'' = Inr (Some (JStr gid)) \<and> gid \<noteq> []
      \<and> find_payment ''pagseguro'' gid w = Some db
      \<and> pagseguro_newStatus body (chargesOf body) (status db) = Inr ns
    \<longrightarrow> (\<exists>db1. find_payment ''pagseguro'' gid (snd (webhook_pagseguro e (POST (Some body)) w)) = Some db1
           \<and> pay_id db1 = pay_id db
           \<and> status db1 = ns \<and> (ns = Pending \<longrightarrow> status db = Pending))"
    using pagseguro_stores [of body gid w db ns e] by blast
  show "js_member body ''type'' = Inr ty
      \<and> (ty = Some (JStr ''payment'')
         \<or> opt_member (Some body) ''action'' = Some (JStr ''payment.created'')
         \<or> opt_member (Some body) ''action'' = Some (JStr ''payment.updated''))
      \<and> opt_member (opt_member (Some body) ''data'') ''id'' = Some paymentId
      \<and> truthy (Some paymentId) \<and> toString paymentId = Inr gid
      \<and> find_payment ''mercado_pago'' gid w = Some db
      \<and> mercadopago_get e gid = Some mpPayment \<and> js_member mpPayment ''status'' = Inr st
    \<longrightarrow> (\<exists>db1. find_payment ''mercado_pago'' gid
                  (snd (webhook_mercadopago e (POST (Some body)) w)) = Some db1
           \<and> pay_id db1 = pay_id db
           \<and> status db1 = mercadopago_newStatus st (status db))"
    using mercadopago_stores [of body ty paymentId gid w db e mpPayment st] by blast
qed

lemmas receiver_defs = webhook_pagarme_def webhook_pagarme_try_def webhook_asaas_def
  webhook_asaas_try_def webhook_pagseguro_def webhook_pagseguro_try_def chargesOf_def
  pagseguro_newStatus_def webhook_mercadopago_def webhook_mercadopago_try_def
  mercadopago_newStatus_def respond_def own_def
  find_payment_def single_def applyWebhookStatus_def writeStatus_def update_where_def
  relevantEvents_def pagarme_newStatus_def paymentEvents_def asaas_newStatus_def Let_def

text \<open>
  C1 as stated fails. The payment is \<^verbatim>\<open>approved\<close>. A notification of Mercado Pago at which
  the gateway reports \<^verbatim>\<open>pending\<close> turns it back into \<^verbatim>\<open>pending\<close>; Asaas's
  \<^verbatim>\<open>PAYMENT_OVERDUE\<close> turns it into \<^verbatim>\<open>expired\<close>; a declined charge in a notification of
  PagSeguro turns it into \<^verbatim>\<open>rejected\<close>.
\<close>

theorem approved_overwritten_by_lower_precedence:
  "map status (payments (ex_world ''mercado_pago'' Approved (Some ''client-1'') (Some 20010)))
     = [Approved]
   \<and> map status (payments (snd (webhook_mercadopago (ex_env_mp ''pending'')
         (POST (Some ex_mercadopago_event))
         (ex_world ''mercado_pago'' Approved (Some ''client-1'') (Some 20010)))))
     = [Pending]
   \<and> map status (payments (ex_world ''asaas'' Approved (Some ''client-1'') (Some 20010)))
     = [Approved]
   \<and> map status (payments (snd (webhook_asaas ex_env
         (POST (Some (ex_asaas_event ''PAYMENT_OVERDUE'')))
         (ex_world ''asaas'' Approved (Some ''client-1'') (Some 20010)))))
     = [Expired]
   \<and> map status (payments (ex_world ''pagseguro'' Approved (Some ''client-1'') (Some 20010)))
     = [Approved]
   \<and> map status (payments (snd (webhook_pagseguro ex_env
         (POST (Some (ex_pagseguro_order ''DECLINED'')))
         (ex_world ''pagseguro'' Approved (Some ''client-1'') (Some 20010)))))
     = [Rejected]"
  by (simp add: ex_defs ex_env_mp_def ex_asaas_event_def ex_pagseguro_order_def
      ex_mercadopago_event_def receiver_defs)

text \<open>
  \<^verbatim>\<open>PAYMENT_DELETED\<close> after \<^verbatim>\<open>approved\<close>, \<^verbatim>\<open>order.canceled\<close> after \<^verbatim>\<open>refunded\<close>, a cancelled
  charge after \<^verbatim>\<open>approved\<close>: the payment ends \<^verbatim>\<open>rejected\<close> each time. Mercado Pago reporting
  \<^verbatim>\<open>in_process\<close> after \<^verbatim>\<open>approved\<close>: the payment ends \<^verbatim>\<open>pending\<close>.
\<close>

theorem webhook_overwrites_without_precedence_witness:
  "(\<exists>db1. find_payment ''asaas'' ''ext-1''
            (snd (webhook_asaas ex_env (POST (Some (ex_asaas_event ''PAYMENT_DELETED'')))
               (ex_world ''asaas'' Approved None None))) = Some db1
          \<and> status db1 = Rejected)
   \<and> (\<exists>db1. find_payment ''pagarme'' ''ext-1''
            (snd (webhook_pagarme ex_env (POST (Some (ex_pagarme_event ''order.canceled'')))
               (ex_world ''pagarme'' Refunded None None))) = Some db1
          \<and> status db1 = Rejected)
   \<and> (\<exists>db1. find_payment ''pagseguro'' ''ext-1''
            (snd (webhook_pagseguro ex_env (POST (Some (ex_pagseguro_order ''CANCELED'')))
               (ex_world ''pagseguro'' Approved None None))) = Some db1
          \<and> status db1 = Rejected)
   \<and> (\<exists>db1. find_payment ''mercado_pago'' ''ext-1''
            (snd (webhook_mercadopago (ex_env_mp ''in_process'')
               (POST (Some ex_mercadopago_event))
               (ex_world ''mercado_pago'' Approved None None))) = Some db1
          \<and> status db1 = Pending)"
  using
    webhook_overwrites_without_precedence [where body = "ex_asaas_event ''PAYMENT_DELETED''"
      and ev = "''PAYMENT_DELETED''" and gid = "''ext-1''"
      and w = "ex_world ''asaas'' Approved None None"
      and db = "ex_payment ''asaas'' Approved None" and e = ex_env and ns = Rejected
      and ty = None and paymentId = JNull and mpPayment = JNull and st = None]
    webhook_overwrites_without_precedence [where body = "ex_pagarme_event ''order.canceled''"
      and ev = "''order.canceled''" and gid = "''ext-1''"
      and w = "ex_world ''pagarme'' Refunded None None"
      and db = "ex_payment ''pagarme'' Refunded None" and e = ex_env and ns = Rejected
      and ty = None and paymentId = JNull and mpPayment = JNull and st = None]
    webhook_overwrites_without_precedence [where body = "ex_pagseguro_order ''CANCELED''"
      and ev = "''CANCELED''" and gid = "''ext-1''"
      and w = "ex_world ''pagseguro'' Approved None None"
      and db = "ex_payment ''pagseguro'' Approved None" and e = ex_env and ns = Rejected
      and ty = None and paymentId = JNull and mpPayment = JNull and st = None]
    webhook_overwrites_without_precedence [where body = ex_mercadopago_event
      and ev = "''payment''" and gid = "''ext-1''"
      and w = "ex_world ''mercado_pago'' Approved None None"
      and db = "ex_payment ''mercado_pago'' Approved None"
      and e = "ex_env_mp ''in_process''" and ns = Pending
      and ty = "Some (JStr ''payment'')" and paymentId = "JStr ''ext-1''"
      and mpPayment = "JObj [(''status'', JStr ''in_process'')]"
      and st = "Some (JStr ''in_process'')"]
  by (simp add: ex_find_payment ex_mercadopago_get ex_asaas_event_def ex_pagarme_event_def
      ex_pagseguro_order_def ex_mercadopago_event_def
      own_def paymentEvents_def relevantEvents_def asaas_newStatus_def pagarme_newStatus_def
      pagseguro_newStatus_def chargesOf_def mercadopago_newStatus_def ex_payment_fields) blast

subsection \<open>Bodies the receivers cannot use\<close>





section \<open>The status poll\<close>

lemma poll_found:
  assumes "js_member body ''payment_id'' = Inr (Some v)"
    and "truthy (Some v)"
    and "toString v = Inr pid"
    and "filter (\<lambda>p. pay_id p = pid) (payments w) = [payment]"
  shows "payment_status e (POST (Some body)) w =
     (if status payment = Approved
      then (Response 200 (StatusJson Approved (paid_at payment)), w)
      else if status payment = Expired \<or> status payment = Rejected
      then (Response 200 (StatusJson (status payment) None), w)
      else case single (filter (\<lambda>s. ps_owner_id s = owner_id payment) (payment_settings w)) of
        None \<Rightarrow> (Response 200 (StatusJson (status payment) None), w)
      | Some settings \<Rightarrow>
          (Response 200
             (StatusJson (fst (gatewayStatusOf e settings payment w))
                (if fst (gatewayStatusOf e settings payment w) = Approved then Some (now e)
                 else None)),
           if fst (gatewayStatusOf e settings payment w) \<noteq> status payment
           then writeStatus e pid (fst (gatewayStatusOf e settings payment w)) None
                  (snd (gatewayStatusOf e settings payment w))
           else snd (gatewayStatusOf e settings payment w)))"
  using assms
  by (simp add: payment_status_def payment_status_try_def json_error_def single_singleton
      Let_def split_beta split: option.splits)

text \<open>
  C9. The poll of a payment whose owner's settings name a gateway other than
  \<^verbatim>\<open>mercado_pago\<close> and \<^verbatim>\<open>asaas\<close> (so also \<^verbatim>\<open>pagseguro\<close> and \<^verbatim>\<open>pagarme\<close>) answers with the
  stored status and leaves the state as it is: nothing is added to the trace, so no gateway
  is asked, and no row is written.
\<close>

theorem poll_without_lookup_for_other_gateways:
  assumes "js_member body ''payment_id'' = Inr (Some v)"
    and "truthy (Some v)"
    and "toString v = Inr pid"
    and "filter (\<lambda>p. pay_id p = pid) (payments w) = [payment]"
    and "filter (\<lambda>s. ps_owner_id s = owner_id payment) (payment_settings w) = [settings]"
    and "active_gateway settings \<noteq> ''mercado_pago''"
    and "active_gateway settings \<noteq> ''asaas''"
  shows "payment_status e (POST (Some body)) w =
           (Response 200 (StatusJson (status payment)
              (if status payment = Approved then paid_at payment else None)), w)"
  unfolding poll_found [OF assms(1-4)]
  using assms(5-7) by (simp add: single_singleton gatewayStatusOf_def)

lemma ex_poll_id: "js_member ex_poll ''payment_id'' = Inr (Some (JStr ''pay-1''))"
  by (simp add: ex_poll_def own_def)

lemma ex_poll_payment:
  "filter (\<lambda>p. pay_id p = ''pay-1'') (payments (ex_world gw st cid d)) = [ex_payment gw st cid]"
  by (simp add: ex_world_def ex_payment_def)

lemma ex_poll_settings:
  "filter (\<lambda>s. ps_owner_id s = owner_id (ex_payment gw st cid))
     (payment_settings (ex_world gw st cid d)) = [ex_settings gw]"
  by (simp add: ex_world_def ex_payment_def ex_settings_def)

text \<open>A pending payment of an owner whose gateway is PagSeguro.\<close>

theorem poll_without_lookup_for_other_gateways_witness:
  "payment_status ex_env (POST (Some ex_poll)) (ex_world ''pagseguro'' Pending None None)
     = (Response 200 (StatusJson Pending None), ex_world ''pagseguro'' Pending None None)"
  using poll_without_lookup_for_other_gateways [where body = ex_poll and v = "JStr ''pay-1''"
      and pid = "''pay-1''" and w = "ex_world ''pagseguro'' Pending None None"
      and payment = "ex_payment ''pagseguro'' Pending None"
      and settings = "ex_settings ''pagseguro''" and e = ex_env]
  by (simp add: ex_poll_id ex_poll_payment ex_poll_settings ex_settings_def ex_payment_def
      ex_world_def)


lemma trace_gatewayStatusOf:
  "trace (snd (gatewayStatusOf e settings payment w)) =
     trace w @
       (if active_gateway settings = ''mercado_pago'' \<or> active_gateway settings = ''asaas''
        then [GatewayStatusLookup (active_gateway settings)
                (case gateway_payment_id payment of None \<Rightarrow> ''null'' | Some g \<Rightarrow> g)]
        else [])"
  by (simp add: gatewayStatusOf_def Let_def)

lemma trace_writeStatus: "trace (writeStatus e pid ns d w) = trace w @ [StatusWrite pid ns]"
  by (simp add: writeStatus_def)

lemmas poll_defs = payment_status_def payment_status_try_def json_error_def single_def own_def
  gatewayStatusOf_def checkMercadoPagoStatus_def checkAsaasStatus_def mapMercadoPagoLookup_def
  mapAsaasLookup_def writeStatus_def update_where_def Let_def

text \<open>
  C6 as stated fails: a stored \<^verbatim>\<open>approved\<close> is returned at once as well, before the settings
  are read, and no gateway is asked.
\<close>

theorem approved_poll_skips_gateway:
  "payment_status ex_env (POST (Some ex_poll)) (ex_world ''mercado_pago'' Approved None None)
     = (Response 200 (StatusJson Approved None), ex_world ''mercado_pago'' Approved None None)
   \<and> trace (snd (payment_status ex_env (POST (Some ex_poll))
         (ex_world ''mercado_pago'' Approved None None))) = []"
  by (simp add: poll_defs ex_poll_def ex_payment_def ex_world_def)

text \<open>
  C6, as the poll has it. For a payment that is found: a stored \<^verbatim>\<open>approved\<close>, \<^verbatim>\<open>rejected\<close> or
  \<^verbatim>\<open>expired\<close> is returned at once with the state untouched (\<^verbatim>\<open>approved\<close> with its
  \<^verbatim>\<open>paid_at\<close>); a stored \<^verbatim>\<open>pending\<close> or \<^verbatim>\<open>refunded\<close> makes the poll ask the gateway when the
  owner's settings name \<^verbatim>\<open>mercado_pago\<close> or \<^verbatim>\<open>asaas\<close>, and is returned with the state untouched
  when there are no settings or they name another gateway.
\<close>

theorem poll_short_circuit:
  assumes "js_member body ''payment_id'' = Inr (Some v)"
    and "truthy (Some v)"
    and "toString v = Inr pid"
    and "filter (\<lambda>p. pay_id p = pid) (payments w) = [payment]"
  shows
    "(status payment = Approved \<or> status payment = Rejected \<or> status payment = Expired \<longrightarrow>
        payment_status e (POST (Some body)) w =
          (Response 200 (StatusJson (status payment)
             (if status payment = Approved then paid_at payment else None)), w))
     \<and> ((status payment = Pending \<or> status payment = Refunded)
         \<and> filter (\<lambda>s. ps_owner_id s = owner_id payment) (payment_settings w) = [settings]
         \<and> (active_gateway settings = ''mercado_pago'' \<or> active_gateway settings = ''asaas'') \<longrightarrow>
        (\<exists>rest. trace (snd (payment_status e (POST (Some body)) w)) =
           trace w @ GatewayStatusLookup (active_gateway settings)
             (case gateway_payment_id payment of None \<Rightarrow> ''null'' | Some g \<Rightarrow> g) # rest))
     \<and> ((status payment = Pending \<or> status payment = Refunded)
         \<and> (\<forall>s. single (filter (\<lambda>s. ps_owner_id s = owner_id payment) (payment_settings w)) = Some s
                \<longrightarrow> active_gateway s \<noteq> ''mercado_pago'' \<and> active_gateway s \<noteq> ''asaas'') \<longrightarrow>
        payment_status e (POST (Some body)) w =
          (Response 200 (StatusJson (status payment) None), w))"
proof (intro conjI impI)
  assume "status payment = Approved \<or> status payment = Rejected \<or> status payment = Expired"
  then show "payment_status e (POST (Some body)) w =
          (Response 200 (StatusJson (status payment)
             (if status payment = Approved then paid_at payment else None)), w)"
    unfolding poll_found [OF assms] by auto
next
  assume a: "(status payment = Pending \<or> status payment = Refunded)
         \<and> filter (\<lambda>s. ps_owner_id s = owner_id payment) (payment_settings w) = [settings]
         \<and> (active_gateway settings = ''mercado_pago'' \<or> active_gateway settings = ''asaas'')"
  then show "\<exists>rest. trace (snd (payment_status e (POST (Some body)) w)) =
           trace w @ GatewayStatusLookup (active_gateway settings)
             (case gateway_payment_id payment of None \<Rightarrow> ''null'' | Some g \<Rightarrow> g) # rest"
    unfolding poll_found [OF assms]
    by (auto simp add: single_singleton trace_gatewayStatusOf trace_writeStatus)
next
  assume a: "(status payment = Pending \<or> status payment = Refunded)
         \<and> (\<forall>s. single (filter (\<lambda>s. ps_owner_id s = owner_id payment) (payment_settings w)) = Some s
                \<longrightarrow> active_gateway s \<noteq> ''mercado_pago'' \<and> active_gateway s \<noteq> ''asaas'')"
  then show "payment_status e (POST (Some body)) w =
          (Response 200 (StatusJson (status payment) None), w)"
    unfolding poll_found [OF assms]
    by (auto simp add: gatewayStatusOf_def split: option.splits)
qed

text \<open>
  A rejected payment is returned at once; a refunded one is looked up at Asaas; a refunded
  one of an owner on Pagar.me is returned as stored.
\<close>

theorem poll_short_circuit_witness:
  "payment_status ex_env (POST (Some ex_poll)) (ex_world ''asaas'' Rejected None None)
     = (Response 200 (StatusJson Rejected None), ex_world ''asaas'' Rejected None None)
   \<and> (\<exists>rest. trace (snd (payment_status ex_env (POST (Some ex_poll))
                 (ex_world ''asaas'' Refunded None None)))
         = GatewayStatusLookup ''asaas'' ''ext-1'' # rest)
   \<and> payment_status ex_env (POST (Some ex_poll)) (ex_world ''pagarme'' Refunded None None)
     = (Response 200 (StatusJson Refunded None), ex_world ''pagarme'' Refunded None None)"
  using
    poll_short_circuit [where body = ex_poll and v = "JStr ''pay-1''" and pid = "''pay-1''"
      and w = "ex_world ''asaas'' Rejected None None"
      and payment = "ex_payment ''asaas'' Rejected None" and e = ex_env]
    poll_short_circuit [where body = ex_poll and v = "JStr ''pay-1''" and pid = "''pay-1''"
      and w = "ex_world ''asaas'' Refunded None None"
      and payment = "ex_payment ''asaas'' Refunded None" and e = ex_env
      and settings = "ex_settings ''asaas''"]
    poll_short_circuit [where body = ex_poll and v = "JStr ''pay-1''" and pid = "''pay-1''"
      and w = "ex_world ''pagarme'' Refunded None None"
      and payment = "ex_payment ''pagarme'' Refunded None" and e = ex_env]
  by (simp add: ex_poll_id ex_poll_payment ex_settings_def ex_payment_def ex_world_def single_def)


lemma counts_gatewayStatusOf:
  "provisionings (snd (gatewayStatusOf e settings payment w)) = provisionings w"
  by (simp add: provisionings_def trace_gatewayStatusOf)

text \<open>The poll never enters \<^verbatim>\<open>handlePaymentApproved\<close>, whatever it is asked.\<close>

lemma poll_never_provisions:
  "provisionings (snd (payment_status e req w)) = provisionings w"
proof (cases req)
  case OPTIONS
  then show ?thesis by (simp add: payment_status_def)
next
  case (POST payload)
  then show ?thesis
    by (auto simp add: payment_status_def payment_status_try_def json_error_def Let_def
        split_beta counts_gatewayStatusOf counts_writeStatus
        split: option.splits sum.splits)
qed

lemmas provision_defs = handlePaymentApproved_def handlePaymentApproved3_def provision_def
  link_payment_def set_plan_end_def isoDate_def addDays_def timeClip_def maxTime_def
  ms_per_day_def localeDate_def

text \<open>
  C2 fails at the poll. A pending Asaas payment that the gateway reports as confirmed: the
  poll answers \<^verbatim>\<open>approved\<close>, writes the status, and does not enter
  \<^verbatim>\<open>handlePaymentApproved\<close>; the account is untouched. The receiver of the webhook, given the
  same pending payment, writes the status and enters \<^verbatim>\<open>handlePaymentApproved\<close>. Once the
  poll has written \<^verbatim>\<open>approved\<close>, the webhook that confirms the payment finds the status
  unchanged and does nothing, so the payment is never provisioned.
\<close>

theorem poll_approval_skips_provisioning:
  "fst (payment_status ex_env (POST (Some ex_poll)) (ex_world ''asaas'' Pending None None))
     = Response 200 (StatusJson Approved (Some (now ex_env)))
   \<and> map status (payments (snd (payment_status ex_env (POST (Some ex_poll))
         (ex_world ''asaas'' Pending None None)))) = [Approved]
   \<and> trace (snd (payment_status ex_env (POST (Some ex_poll))
         (ex_world ''asaas'' Pending None None)))
     = [GatewayStatusLookup ''asaas'' ''ext-1'', StatusWrite ''pay-1'' Approved]
   \<and> profiles (snd (payment_status ex_env (POST (Some ex_poll))
         (ex_world ''asaas'' Pending None None)))
     = [ex_profile None]
   \<and> trace (snd (webhook_asaas ex_env (POST (Some (ex_asaas_event ''PAYMENT_CONFIRMED'')))
         (ex_world ''asaas'' Pending None None)))
     = [StatusWrite ''pay-1'' Approved, ProvisioningInvoked ''pay-1'']
   \<and> webhook_asaas ex_env (POST (Some (ex_asaas_event ''PAYMENT_CONFIRMED'')))
         (snd (payment_status ex_env (POST (Some ex_poll))
            (ex_world ''asaas'' Pending None None)))
     = (Response 200 (Text ''OK''),
        snd (payment_status ex_env (POST (Some ex_poll)) (ex_world ''asaas'' Pending None None)))"
  by (simp add: poll_defs receiver_defs provision_defs ex_poll_def ex_asaas_event_def ex_defs)


section \<open>The branch of provisioning that finds the account by email\<close>

text \<open>
  C3 fails in its first half. The payment has no \<^verbatim>\<open>client_id\<close>, an account with the
  customer's email exists and its plan ends on day 20100, a hundred days from today; the
  plan bought has 30 days. Both copies of \<^verbatim>\<open>handlePaymentApproved\<close> set the end date to day
  20030, today plus 30, where the renewal branch would give 20130; nothing is thrown. The
  payment is linked to the account, as the claim says.
\<close>

theorem email_match_overwrites_future_end_date:
  "isoDate (Some (now ex_env)) = Inr 20000 \<and> duration_days ex_plan = 30
   \<and> profiles (ex_world ''pagseguro'' Approved None (Some 20100)) = [ex_profile (Some 20100)]
   \<and> fst (handlePaymentApproved ex_env (ex_payment ''pagseguro'' Approved None)
        (ex_world ''pagseguro'' Approved None (Some 20100))) = None
   \<and> profiles (snd (handlePaymentApproved ex_env (ex_payment ''pagseguro'' Approved None)
        (ex_world ''pagseguro'' Approved None (Some 20100))))
     = [(ex_profile (Some 20030))\<lparr>is_active := True\<rparr>]
   \<and> profiles (snd (handlePaymentApproved3 ex_env (ex_payment ''pagseguro'' Approved None)
        ex_plan (ex_world ''pagseguro'' Approved None (Some 20100))))
     = [(ex_profile (Some 20030))\<lparr>is_active := True\<rparr>]
   \<and> map client_id (payments (snd (handlePaymentApproved ex_env
        (ex_payment ''pagseguro'' Approved None)
        (ex_world ''pagseguro'' Approved None (Some 20100)))))
     = [Some ''client-1'']"
  by (simp add: ex_defs provision_defs single_def update_where_def Let_def)


section \<open>Payment creation: checks and the inserted row\<close>

lemma truthy_Some: "truthy v \<Longrightarrow> \<exists>x. v = Some x"
  by (cases v) simp_all

lemma truthy_requested:
  "truthy (requested payload k) \<Longrightarrow> \<exists>kvs. payload = Some (JObj kvs)"
proof -
  assume t: "truthy (requested payload k)"
  show ?thesis
  proof (cases payload)
    case None
    then show ?thesis using t by (simp add: requested_def)
  next
    case (Some body)
    then show ?thesis using t by (cases body) (simp_all add: requested_def)
  qed
qed

text \<open>
  The function after the checks of the request itself and the reading of the settings: the
  checks of the method, the reading of the plan, the lowering of the email, the check of
  the gateway.
\<close>

lemma create_checked:
  assumes "body \<noteq> JNull"
    and "opt_member (Some body) ''owner_id'' = Some ov" and "truthy (Some ov)"
    and "opt_member (Some body) ''plan_id'' = Some pv" and "truthy (Some pv)"
    and "truthy (opt_member (Some body) ''payment_method'')"
    and "truthy (opt_member (Some body) ''customer'')"
    and "opt_member (Some body) ''payment_method'' = Some (JStr ''credit_card'')
           \<longrightarrow> truthy (opt_member (Some body) ''card'')"
    and "toString ov = Inr owner"
    and "single (filter (\<lambda>s. ps_owner_id s = owner) (payment_settings w)) = Some s"
  shows "payment_create_try e (Some body) w =
     (if opt_member (Some body) ''payment_method'' = Some (JStr ''pix'') \<and> \<not> pix_enabled s
      then Inr (Response 400 (ErrorJson ''PIX nao esta habilitado''), w)
      else if opt_member (Some body) ''payment_method'' = Some (JStr ''boleto'')
              \<and> \<not> boleto_enabled s
      then Inr (Response 400 (ErrorJson ''Boleto nao esta habilitado''), w)
      else if opt_member (Some body) ''payment_method'' = Some (JStr ''credit_card'')
              \<and> \<not> credit_card_enabled s
      then Inr (Response 400 (ErrorJson ''Cartao de credito nao esta habilitado''), w)
      else case toString pv of
        Inl err \<Rightarrow> Inl (err, w)
      | Inr plan_ref \<Rightarrow>
          (case single (filter (\<lambda>s. sp_id s = plan_ref \<and> sp_is_active s)
                          (subscription_plans w)) of
             None \<Rightarrow> Inr (Response 400 (ErrorJson ''Plano nao encontrado''), w)
           | Some plan \<Rightarrow>
               (case lowerEmail e (opt_member (Some body) ''customer'') of
                  Inl err \<Rightarrow> Inl (err, w)
                | Inr email \<Rightarrow>
                    if active_gateway s \<notin> set gateways
                    then Inr (Response 400 (ErrorJson ''Gateway nao configurado''), w)
                    else charge_and_record e body email s plan
                           (single (filter (\<lambda>r. pf_email r = Some email) (profiles w))) w)))"
  using assms
  by (auto simp add: payment_create_try_def Let_def split: sum.splits option.splits)

lemma create_shape:
  "(\<exists>msg \<in> set validation_errors.
       payment_create_try e payload w = Inr (Response 400 (ErrorJson msg), w))
   \<or> (\<exists>err. payment_create_try e payload w = Inl (err, w))
   \<or> (\<exists>body em s plan.
         payload = Some body
       \<and> opt_member (opt_member (Some body) ''customer'') ''email'' = Some (JStr em)
       \<and> settings_of payload w = Some s
       \<and> \<not> method_disabled s (requested payload ''payment_method'')
       \<and> active_gateway s \<in> set gateways
       \<and> plan_of payload w = Some plan
       \<and> payment_create_try e payload w =
           charge_and_record e body (toLowerCase e em) s plan
             (single (filter (\<lambda>r. pf_email r = Some (toLowerCase e em)) (profiles w))) w)"
proof (cases payload)
  case None
  then show ?thesis by (simp add: payment_create_try_def)
next
  case (Some body)
  note b = this
  show ?thesis
  proof (cases "body = JNull")
    case True
    then show ?thesis using b by (simp add: payment_create_try_def)
  next
    case False
    note nn = this
    show ?thesis
    proof (cases "\<not> truthy (opt_member (Some body) ''owner_id'')
                  \<or> \<not> truthy (opt_member (Some body) ''plan_id'')
                  \<or> \<not> truthy (opt_member (Some body) ''payment_method'')
                  \<or> \<not> truthy (opt_member (Some body) ''customer'')")
      case True
      then have "payment_create_try e payload w =
          Inr (Response 400 (ErrorJson ''Dados incompletos''), w)"
        using b nn by (simp add: payment_create_try_def Let_def)
      then show ?thesis by (simp add: validation_errors_def)
    next
      case False
      note t = this
      show ?thesis
      proof (cases "opt_member (Some body) ''payment_method'' = Some (JStr ''credit_card'')
                    \<and> \<not> truthy (opt_member (Some body) ''card'')")
        case True
        then have "payment_create_try e payload w =
            Inr (Response 400 (ErrorJson ''Dados do cartao sao obrigatorios''), w)"
          using b nn t by (simp add: payment_create_try_def Let_def)
        then show ?thesis by (simp add: validation_errors_def)
      next
        case False
        note c = this
        obtain ov where ov: "opt_member (Some body) ''owner_id'' = Some ov"
          using t truthy_Some by blast
        obtain pv where pv: "opt_member (Some body) ''plan_id'' = Some pv"
          using t truthy_Some by blast
        show ?thesis
        proof (cases "toString ov")
          case (Inl err)
          then have "payment_create_try e payload w = Inl (err, w)"
            using b nn t c ov by (simp add: payment_create_try_def Let_def)
          then show ?thesis by blast
        next
          case (Inr owner)
          note o = this
          have so: "settings_of payload w =
              single (filter (\<lambda>s. ps_owner_id s = owner) (payment_settings w))"
            using b ov o by (simp add: settings_of_def lookup_text_def requested_def)
          show ?thesis
          proof (cases "single (filter (\<lambda>s. ps_owner_id s = owner) (payment_settings w))")
            case None
            then have "payment_create_try e payload w =
                Inr (Response 400 (ErrorJson ''Configuracoes de pagamento nao encontradas''), w)"
              using b nn t c ov o by (simp add: payment_create_try_def Let_def)
            then show ?thesis by (simp add: validation_errors_def)
          next
            case (Some s)
            note s = this
            have ch: "payment_create_try e payload w =
              (if opt_member (Some body) ''payment_method'' = Some (JStr ''pix'')
                  \<and> \<not> pix_enabled s
               then Inr (Response 400 (ErrorJson ''PIX nao esta habilitado''), w)
               else if opt_member (Some body) ''payment_method'' = Some (JStr ''boleto'')
                       \<and> \<not> boleto_enabled s
               then Inr (Response 400 (ErrorJson ''Boleto nao esta habilitado''), w)
               else if opt_member (Some body) ''payment_method'' = Some (JStr ''credit_card'')
                       \<and> \<not> credit_card_enabled s
               then Inr (Response 400 (ErrorJson ''Cartao de credito nao esta habilitado''), w)
               else case toString pv of
                 Inl err \<Rightarrow> Inl (err, w)
               | Inr plan_ref \<Rightarrow>
                   (case single (filter (\<lambda>s. sp_id s = plan_ref \<and> sp_is_active s)
                                   (subscription_plans w)) of
                      None \<Rightarrow> Inr (Response 400 (ErrorJson ''Plano nao encontrado''), w)
                    | Some plan \<Rightarrow>
                        (case lowerEmail e (opt_member (Some body) ''customer'') of
                           Inl err \<Rightarrow> Inl (err, w)
                         | Inr email \<Rightarrow>
                             if active_gateway s \<notin> set gateways
                             then Inr (Response 400 (ErrorJson ''Gateway nao configurado''), w)
                             else charge_and_record e body email s plan
                                    (single (filter (\<lambda>r. pf_email r = Some email)
                                               (profiles w))) w)))"
              unfolding b using nn ov t pv c o s by (intro create_checked) simp_all
            show ?thesis
            proof (cases "method_disabled s (opt_member (Some body) ''payment_method'')")
              case True
              then show ?thesis
                unfolding ch by (auto simp add: method_disabled_def validation_errors_def)
            next
              case False
              note md = this
              then have ch2: "payment_create_try e payload w =
                (case toString pv of
                   Inl err \<Rightarrow> Inl (err, w)
                 | Inr plan_ref \<Rightarrow>
                     (case single (filter (\<lambda>s. sp_id s = plan_ref \<and> sp_is_active s)
                                     (subscription_plans w)) of
                        None \<Rightarrow> Inr (Response 400 (ErrorJson ''Plano nao encontrado''), w)
                      | Some plan \<Rightarrow>
                          (case lowerEmail e (opt_member (Some body) ''customer'') of
                             Inl err \<Rightarrow> Inl (err, w)
                           | Inr email \<Rightarrow>
                               if active_gateway s \<notin> set gateways
                               then Inr (Response 400 (ErrorJson ''Gateway nao configurado''), w)
                               else charge_and_record e body email s plan
                                      (single (filter (\<lambda>r. pf_email r = Some email)
                                                 (profiles w))) w)))"
                unfolding ch by (auto simp add: method_disabled_def)
              show ?thesis
              proof (cases "toString pv")
                case (Inl err)
                then show ?thesis unfolding ch2 by simp
              next
                case (Inr plan_ref)
                note pr = this
                have po: "plan_of payload w =
                    single (filter (\<lambda>s. sp_id s = plan_ref \<and> sp_is_active s)
                              (subscription_plans w))"
                  using b pv pr by (simp add: plan_of_def lookup_text_def requested_def)
                show ?thesis
                proof (cases "single (filter (\<lambda>s. sp_id s = plan_ref \<and> sp_is_active s)
                                        (subscription_plans w))")
                  case None
                  then show ?thesis
                    unfolding ch2 using pr by (simp add: validation_errors_def)
                next
                  case (Some plan)
                  note pl = this
                  show ?thesis
                  proof (cases "lowerEmail e (opt_member (Some body) ''customer'')")
                    case (Inl err)
                    then show ?thesis unfolding ch2 using pr pl by simp
                  next
                    case (Inr email)
                    note em = this
                    then obtain em0 where
                      e0: "opt_member (opt_member (Some body) ''customer'') ''email''
                             = Some (JStr em0)"
                      and e1: "email = toLowerCase e em0"
                      by (auto simp add: lowerEmail_def split: option.splits json.splits)
                    show ?thesis
                    proof (cases "active_gateway s \<in> set gateways")
                      case False
                      then show ?thesis
                        unfolding ch2 using pr pl em by (simp add: validation_errors_def)
                    next
                      case True
                      then have "payment_create_try e payload w =
                          charge_and_record e body (toLowerCase e em0) s plan
                            (single (filter (\<lambda>r. pf_email r = Some (toLowerCase e em0))
                                       (profiles w))) w"
                        unfolding ch2 using pr pl em e1 by simp
                      moreover have "settings_of payload w = Some s"
                        using so s by simp
                      moreover have "plan_of payload w = Some plan"
                        using po pl by simp
                      moreover have "\<not> method_disabled s (requested payload ''payment_method'')"
                        using md b by (simp add: requested_def)
                      ultimately show ?thesis
                        using b e0 True by blast
                    qed
                  qed
                qed
              qed
            qed
          qed
        qed
      qed
    qed
  qed
qed

lemma json_error_simps:
  "json_error (Inl (err, w)) = (Response 500 (ErrorJson ''Erro interno do servidor''), w)"
  "json_error (Inr (r, w)) = (r, w)"
  by (simp_all add: json_error_def)

lemma create_unmet:
  assumes "\<not> spec_preconditions_met payload w"
  shows "(\<exists>msg \<in> set validation_errors.
            payment_create e (POST payload) w = (Response 400 (ErrorJson msg), w))
       \<or> payment_create e (POST payload) w =
            (Response 500 (ErrorJson ''Erro interno do servidor''), w)"
proof -
  consider (invalid) msg where "msg \<in> set validation_errors"
      "payment_create_try e payload w = Inr (Response 400 (ErrorJson msg), w)"
    | (thrown) err where "payment_create_try e payload w = Inl (err, w)"
    | (checked) s plan where "settings_of payload w = Some s"
        "\<not> method_disabled s (requested payload ''payment_method'')"
        "active_gateway s \<in> set gateways" "plan_of payload w = Some plan"
    using create_shape [of e payload w] by blast
  then show ?thesis
  proof cases
    case invalid
    then show ?thesis by (auto simp add: payment_create_def json_error_simps)
  next
    case thrown
    then show ?thesis by (simp add: payment_create_def json_error_simps)
  next
    case checked
    then show ?thesis using assms by (simp add: spec_preconditions_met_def)
  qed
qed

lemma complete_request_body:
  assumes "complete_request payload"
  shows "\<exists>body ov pv. payload = Some body \<and> body \<noteq> JNull
     \<and> opt_member (Some body) ''owner_id'' = Some ov \<and> truthy (Some ov)
     \<and> opt_member (Some body) ''plan_id'' = Some pv \<and> truthy (Some pv)
     \<and> truthy (opt_member (Some body) ''payment_method'')
     \<and> truthy (opt_member (Some body) ''customer'')
     \<and> (opt_member (Some body) ''payment_method'' = Some (JStr ''credit_card'')
           \<longrightarrow> truthy (opt_member (Some body) ''card''))"
proof -
  obtain kvs where b: "payload = Some (JObj kvs)"
    using assms truthy_requested [of payload "''owner_id''"] by (auto simp add: complete_request_def)
  have r: "\<And>k. requested payload k = opt_member (Some (JObj kvs)) k"
    using b by (simp add: requested_def)
  obtain ov where ov: "opt_member (Some (JObj kvs)) ''owner_id'' = Some ov"
    using assms r truthy_Some [of "requested payload ''owner_id''"]
    by (auto simp add: complete_request_def)
  obtain pv where pv: "opt_member (Some (JObj kvs)) ''plan_id'' = Some pv"
    using assms r truthy_Some [of "requested payload ''plan_id''"]
    by (auto simp add: complete_request_def)
  have "truthy (Some ov)" and "truthy (Some pv)"
    using assms r ov pv by (auto simp add: complete_request_def)
  moreover have "truthy (opt_member (Some (JObj kvs)) ''payment_method'')"
    and "truthy (opt_member (Some (JObj kvs)) ''customer'')"
    and "opt_member (Some (JObj kvs)) ''payment_method'' = Some (JStr ''credit_card'')
           \<longrightarrow> truthy (opt_member (Some (JObj kvs)) ''card'')"
    using assms r by (auto simp add: complete_request_def)
  ultimately show ?thesis
    using b ov pv by blast
qed

lemma create_method_disabled:
  assumes c: "complete_request payload"
    and s: "settings_of payload w = Some s"
    and m: "method_disabled s (requested payload ''payment_method'')"
  shows "payment_create e (POST payload) w =
     (Response 400 (ErrorJson
        (if requested payload ''payment_method'' = Some (JStr ''pix'')
         then ''PIX nao esta habilitado''
         else if requested payload ''payment_method'' = Some (JStr ''boleto'')
         then ''Boleto nao esta habilitado''
         else ''Cartao de credito nao esta habilitado'')), w)"
proof -
  obtain body ov pv where b: "payload = Some body" "body \<noteq> JNull"
    and f: "opt_member (Some body) ''owner_id'' = Some ov" "truthy (Some ov)"
      "opt_member (Some body) ''plan_id'' = Some pv" "truthy (Some pv)"
      "truthy (opt_member (Some body) ''payment_method'')"
      "truthy (opt_member (Some body) ''customer'')"
      "opt_member (Some body) ''payment_method'' = Some (JStr ''credit_card'')
           \<longrightarrow> truthy (opt_member (Some body) ''card'')"
    using complete_request_body [OF c] by blast
  obtain owner where o: "toString ov = Inr owner"
    and so: "single (filter (\<lambda>s. ps_owner_id s = owner) (payment_settings w)) = Some s"
    using s b f(1)
    by (auto simp add: settings_of_def lookup_text_def requested_def split: sum.splits)
  have md: "method_disabled s (opt_member (Some body) ''payment_method'')"
    using m b by (simp add: requested_def)
  show ?thesis
    unfolding payment_create_def b(1)
    using md
    by (auto simp add: create_checked [OF b(2) f o so] json_error_simps requested_def
        method_disabled_def)
qed

lemma create_named:
  assumes u: "\<not> spec_preconditions_met payload w"
    and c: "complete_request payload"
    and lo: "lookup_text (requested payload ''owner_id'') \<noteq> None"
    and lp: "lookup_text (requested payload ''plan_id'') \<noteq> None"
    and le: "opt_member (requested payload ''customer'') ''email'' = Some (JStr em)"
  shows "payment_create e (POST payload) w =
     (Response 400 (ErrorJson
        (case settings_of payload w of
           None \<Rightarrow> ''Configuracoes de pagamento nao encontradas''
         | Some s \<Rightarrow>
             if requested payload ''payment_method'' = Some (JStr ''pix'') \<and> \<not> pix_enabled s
             then ''PIX nao esta habilitado''
             else if requested payload ''payment_method'' = Some (JStr ''boleto'')
                     \<and> \<not> boleto_enabled s
             then ''Boleto nao esta habilitado''
             else if requested payload ''payment_method'' = Some (JStr ''credit_card'')
                     \<and> \<not> credit_card_enabled s
             then ''Cartao de credito nao esta habilitado''
             else if plan_of payload w = None then ''Plano nao encontrado''
             else ''Gateway nao configurado'')), w)"
proof -
  obtain body ov pv where b: "payload = Some body" "body \<noteq> JNull"
    and f: "opt_member (Some body) ''owner_id'' = Some ov" "truthy (Some ov)"
      "opt_member (Some body) ''plan_id'' = Some pv" "truthy (Some pv)"
      "truthy (opt_member (Some body) ''payment_method'')"
      "truthy (opt_member (Some body) ''customer'')"
      "opt_member (Some body) ''payment_method'' = Some (JStr ''credit_card'')
           \<longrightarrow> truthy (opt_member (Some body) ''card'')"
    using complete_request_body [OF c] by blast
  have r: "\<And>k. requested payload k = opt_member (Some body) k"
    using b by (simp add: requested_def)
  obtain owner where o: "toString ov = Inr owner"
    using lo f(1) by (auto simp add: r lookup_text_def split: sum.splits)
  obtain plan_ref where p: "toString pv = Inr plan_ref"
    using lp f(3) by (auto simp add: r lookup_text_def split: sum.splits)
  have so: "settings_of payload w =
      single (filter (\<lambda>s. ps_owner_id s = owner) (payment_settings w))"
    using f(1) o by (simp add: settings_of_def lookup_text_def r)
  have po: "plan_of payload w =
      single (filter (\<lambda>s. sp_id s = plan_ref \<and> sp_is_active s) (subscription_plans w))"
    using f(3) p by (simp add: plan_of_def lookup_text_def r)
  have em: "lowerEmail e (opt_member (Some body) ''customer'') = Inr (toLowerCase e em)"
    using le by (simp add: r lowerEmail_def)
  show ?thesis
  proof (cases "single (filter (\<lambda>s. ps_owner_id s = owner) (payment_settings w))")
    case None
    then have "payment_create_try e (Some body) w =
        Inr (Response 400 (ErrorJson ''Configuracoes de pagamento nao encontradas''), w)"
      using b f o by (auto simp add: payment_create_try_def Let_def)
    then show ?thesis
      using None so b by (simp add: payment_create_def json_error_simps)
  next
    case (Some s)
    note s = this
    have ss: "settings_of payload w = Some s"
      using so s by simp
    show ?thesis
    proof (cases "method_disabled s (requested payload ''payment_method'')")
      case True
      have "(if requested payload ''payment_method'' = Some (JStr ''pix'')
             then ''PIX nao esta habilitado''
             else if requested payload ''payment_method'' = Some (JStr ''boleto'')
             then ''Boleto nao esta habilitado''
             else ''Cartao de credito nao esta habilitado'') =
            (if requested payload ''payment_method'' = Some (JStr ''pix'') \<and> \<not> pix_enabled s
             then ''PIX nao esta habilitado''
             else if requested payload ''payment_method'' = Some (JStr ''boleto'')
                     \<and> \<not> boleto_enabled s
             then ''Boleto nao esta habilitado''
             else if requested payload ''payment_method'' = Some (JStr ''credit_card'')
                     \<and> \<not> credit_card_enabled s
             then ''Cartao de credito nao esta habilitado''
             else if plan_of payload w = None then ''Plano nao encontrado''
             else ''Gateway nao configurado'')"
        using True by (auto simp add: method_disabled_def)
      then show ?thesis
        using create_method_disabled [OF c ss True, of e] by (simp add: ss)
    next
      case False
      note md = this
      then have n: "\<not> (requested payload ''payment_method'' = Some (JStr ''pix'')
                        \<and> \<not> pix_enabled s)"
        "\<not> (requested payload ''payment_method'' = Some (JStr ''boleto'')
              \<and> \<not> boleto_enabled s)"
        "\<not> (requested payload ''payment_method'' = Some (JStr ''credit_card'')
              \<and> \<not> credit_card_enabled s)"
        by (auto simp add: method_disabled_def)
      have ch: "payment_create_try e (Some body) w =
          (case plan_of payload w of
             None \<Rightarrow> Inr (Response 400 (ErrorJson ''Plano nao encontrado''), w)
           | Some plan \<Rightarrow>
               if active_gateway s \<notin> set gateways
               then Inr (Response 400 (ErrorJson ''Gateway nao configurado''), w)
               else charge_and_record e body (toLowerCase e em) s plan
                      (single (filter (\<lambda>r. pf_email r = Some (toLowerCase e em))
                                 (profiles w))) w)"
        unfolding create_checked [OF b(2) f o s] po
        using n by (auto simp add: r p em split: option.splits)
      let ?msg = "case settings_of payload w of
           None \<Rightarrow> ''Configuracoes de pagamento nao encontradas''
         | Some s \<Rightarrow>
             if requested payload ''payment_method'' = Some (JStr ''pix'') \<and> \<not> pix_enabled s
             then ''PIX nao esta habilitado''
             else if requested payload ''payment_method'' = Some (JStr ''boleto'')
                     \<and> \<not> boleto_enabled s
             then ''Boleto nao esta habilitado''
             else if requested payload ''payment_method'' = Some (JStr ''credit_card'')
                     \<and> \<not> credit_card_enabled s
             then ''Cartao de credito nao esta habilitado''
             else if plan_of payload w = None then ''Plano nao encontrado''
             else ''Gateway nao configurado''"
      show ?thesis
      proof (cases "plan_of payload w")
        case None
        then have "payment_create e (POST payload) w =
            (Response 400 (ErrorJson ''Plano nao encontrado''), w)"
          by (simp add: payment_create_def b(1) ch json_error_simps)
        moreover have "?msg = ''Plano nao encontrado''"
          using ss None n by auto
        ultimately show ?thesis by simp
      next
        case (Some plan)
        then have "active_gateway s \<notin> set gateways"
          using u ss md by (simp add: spec_preconditions_met_def)
        then have "payment_create e (POST payload) w =
            (Response 400 (ErrorJson ''Gateway nao configurado''), w)"
          using Some by (simp add: payment_create_def b(1) ch json_error_simps)
        moreover have "?msg = ''Gateway nao configurado''"
          using ss Some n by auto
        ultimately show ?thesis by simp
      qed
    qed
  qed
qed

text \<open>
  C8, as the function has it. A request for which the owner has no settings row, or the
  requested method is disabled in the settings, or the settings name no gateway that has an
  adapter, or the plan does not exist or is inactive, is answered with an error and the
  state is untouched: no adapter is called, no payment row is inserted. The error is 400
  with the message of one of the checks, or 500 when the function throws before it comes
  to the check. A request that passes the checks of its own members and asks for a method
  that the settings disable is always answered 400 with the message of that method, so a
  credit card requested while \<^verbatim>\<open>credit_card_enabled\<close> is false gives
  \<^verbatim>\<open>Cartao de credito nao esta habilitado\<close>. When moreover \<^verbatim>\<open>owner_id\<close> and \<^verbatim>\<open>plan_id\<close> can be
  put into a query and the customer's email is a text, the answer is 400 with the message
  of the first check that fails, in the order settings, method, plan, gateway.
\<close>

theorem create_rejects_unmet_preconditions:
  assumes "\<not> spec_preconditions_met payload w"
  shows "snd (payment_create e (POST payload) w) = w
     \<and> ((\<exists>msg \<in> set validation_errors.
            fst (payment_create e (POST payload) w) = Response 400 (ErrorJson msg))
        \<or> fst (payment_create e (POST payload) w)
            = Response 500 (ErrorJson ''Erro interno do servidor''))
     \<and> (complete_request payload \<and> settings_of payload w = Some s
          \<and> method_disabled s (requested payload ''payment_method'') \<longrightarrow>
        payment_create e (POST payload) w =
          (Response 400 (ErrorJson
             (if requested payload ''payment_method'' = Some (JStr ''pix'')
              then ''PIX nao esta habilitado''
              else if requested payload ''payment_method'' = Some (JStr ''boleto'')
              then ''Boleto nao esta habilitado''
              else ''Cartao de credito nao esta habilitado'')), w))
     \<and> (complete_request payload
          \<and> lookup_text (requested payload ''owner_id'') \<noteq> None
          \<and> lookup_text (requested payload ''plan_id'') \<noteq> None
          \<and> opt_member (requested payload ''customer'') ''email'' = Some (JStr em) \<longrightarrow>
        payment_create e (POST payload) w =
          (Response 400 (ErrorJson
             (case settings_of payload w of
                None \<Rightarrow> ''Configuracoes de pagamento nao encontradas''
              | Some s \<Rightarrow>
                  if requested payload ''payment_method'' = Some (JStr ''pix'')
                     \<and> \<not> pix_enabled s
                  then ''PIX nao esta habilitado''
                  else if requested payload ''payment_method'' = Some (JStr ''boleto'')
                          \<and> \<not> boleto_enabled s
                  then ''Boleto nao esta habilitado''
                  else if requested payload ''payment_method'' = Some (JStr ''credit_card'')
                          \<and> \<not> credit_card_enabled s
                  then ''Cartao de credito nao esta habilitado''
                  else if plan_of payload w = None then ''Plano nao encontrado''
                  else ''Gateway nao configurado'')), w))"
proof (intro conjI impI)
  show "snd (payment_create e (POST payload) w) = w"
    using create_unmet [OF assms, of e] by auto
  show "(\<exists>msg \<in> set validation_errors.
            fst (payment_create e (POST payload) w) = Response 400 (ErrorJson msg))
        \<or> fst (payment_create e (POST payload) w)
            = Response 500 (ErrorJson ''Erro interno do servidor'')"
    using create_unmet [OF assms, of e] by auto
next
  assume "complete_request payload \<and> settings_of payload w = Some s
          \<and> method_disabled s (requested payload ''payment_method'')"
  then show "payment_create e (POST payload) w =
          (Response 400 (ErrorJson
             (if requested payload ''payment_method'' = Some (JStr ''pix'')
              then ''PIX nao esta habilitado''
              else if requested payload ''payment_method'' = Some (JStr ''boleto'')
              then ''Boleto nao esta habilitado''
              else ''Cartao de credito nao esta habilitado'')), w)"
    using create_method_disabled [of payload w s e] by blast
next
  assume "complete_request payload
          \<and> lookup_text (requested payload ''owner_id'') \<noteq> None
          \<and> lookup_text (requested payload ''plan_id'') \<noteq> None
          \<and> opt_member (requested payload ''customer'') ''email'' = Some (JStr em)"
  then show "payment_create e (POST payload) w =
          (Response 400 (ErrorJson
             (case settings_of payload w of
                None \<Rightarrow> ''Configuracoes de pagamento nao encontradas''
              | Some s \<Rightarrow>
                  if requested payload ''payment_method'' = Some (JStr ''pix'')
                     \<and> \<not> pix_enabled s
                  then ''PIX nao esta habilitado''
                  else if requested payload ''payment_method'' = Some (JStr ''boleto'')
                          \<and> \<not> boleto_enabled s
                  then ''Boleto nao esta habilitado''
                  else if requested payload ''payment_method'' = Some (JStr ''credit_card'')
                          \<and> \<not> credit_card_enabled s
                  then ''Cartao de credito nao esta habilitado''
                  else if plan_of payload w = None then ''Plano nao encontrado''
                  else ''Gateway nao configurado'')), w)"
    using create_named [OF assms, of em e] by blast
qed

lemmas request_defs = spec_preconditions_met_def complete_request_def settings_of_def plan_of_def
  lookup_text_def requested_def method_disabled_def ex_request_def ex_customer_def own_def
  single_def gateways_def

text \<open>
  C8 as stated fails. The owner's settings name no gateway; the method is enabled and the
  plan exists and is active. The customer of the request has no email: the function throws
  where it lowers the email, before it looks at the gateway, and the request is answered
  500 with the general message of the \<^verbatim>\<open>catch\<close>, which names no precondition.
\<close>

theorem unconfigured_gateway_is_answered_500:
  "settings_of (Some (ex_request ''pix'' [(''name'', JStr ''Ana'')]))
       (ex_world ''none'' Pending None None) = Some (ex_settings ''none'')
   \<and> active_gateway (ex_settings ''none'') \<notin> set gateways
   \<and> \<not> method_disabled (ex_settings ''none'') (Some (JStr ''pix''))
   \<and> plan_of (Some (ex_request ''pix'' [(''name'', JStr ''Ana'')]))
       (ex_world ''none'' Pending None None) = Some ex_plan
   \<and> \<not> spec_preconditions_met (Some (ex_request ''pix'' [(''name'', JStr ''Ana'')]))
       (ex_world ''none'' Pending None None)
   \<and> payment_create ex_env (POST (Some (ex_request ''pix'' [(''name'', JStr ''Ana'')])))
       (ex_world ''none'' Pending None None)
     = (Response 500 (ErrorJson ''Erro interno do servidor''),
        ex_world ''none'' Pending None None)"
  by (simp add: request_defs ex_defs payment_create_def payment_create_try_def json_error_def
      lowerEmail_def Let_def)

text \<open>
  A card payment requested from an owner who has disabled cards; a PIX payment requested
  from an owner whose settings name no gateway.
\<close>

theorem create_rejects_unmet_preconditions_witness:
  "payment_create ex_env (POST (Some (ex_request ''credit_card'' ex_customer)))
       (ex_world ''asaas'' Pending None None)
     = (Response 400 (ErrorJson ''Cartao de credito nao esta habilitado''),
        ex_world ''asaas'' Pending None None)
   \<and> payment_create ex_env (POST (Some (ex_request ''pix'' ex_customer)))
       (ex_world ''none'' Pending None None)
     = (Response 400 (ErrorJson ''Gateway nao configurado''),
        ex_world ''none'' Pending None None)"
  using
    create_rejects_unmet_preconditions [where payload = "Some (ex_request ''credit_card'' ex_customer)"
      and w = "ex_world ''asaas'' Pending None None" and e = ex_env
      and s = "ex_settings ''asaas''" and em = "''Ana@Example.com''"]
    create_rejects_unmet_preconditions [where payload = "Some (ex_request ''pix'' ex_customer)"
      and w = "ex_world ''none'' Pending None None" and e = ex_env
      and s = "ex_settings ''none''" and em = "''Ana@Example.com''"]
  by (simp add: request_defs ex_world_def ex_settings_def ex_plan_def)

subsection \<open>The row a successful creation inserts\<close>

lemma trace_provision: "\<exists>rest. trace (snd (provision e p plan w)) = trace w @ rest"
proof (cases "client_id p")
  case (Some cid)
  then show ?thesis
    by (simp add: provision_renewal trace_set_plan_end split: sum.splits)
next
  case None
  note n = this
  show ?thesis
  proof (cases "single (filter (\<lambda>r. pf_email r = Some (customer_email p)) (profiles w))")
    case (Some u)
    then show ?thesis
      using n by (simp add: provision_def Let_def trace_set_plan_end trace_link_payment
          split: sum.splits)
  next
    case None
    note m = this
    show ?thesis
    proof (cases "createUser e (customer_email p)")
      case None
      then show ?thesis
        using n m by (simp add: provision_def Let_def)
    next
      case (Some uid)
      then show ?thesis
        using n m by (simp add: provision_def Let_def trace_link_payment split: sum.splits)
    qed
  qed
qed

lemma payments_provision_renewal:
  "client_id p = Some cid \<Longrightarrow> payments (snd (provision e p plan w)) = payments w"
  by (simp add: provision_renewal payments_set_plan_end split: sum.splits)

lemma new_payment_fields:
  "new_payment e body email s plan ex pr = Some row \<Longrightarrow>
   new_payment_id e = Some (pay_id row) \<and> customer_email row = email
   \<and> client_id row = map_option pf_id ex"
  by (auto simp add: new_payment_def Let_def split: option.splits)

lemma charge_and_record_success:
  assumes "charge_and_record e body email s plan ex w = Inr (Response 200 content, w')"
  shows "\<exists>row rest.
           trace w' = trace w @ GatewayCharge (active_gateway s) # PaymentInserted row # rest
         \<and> new_payment_id e = Some (pay_id row)
         \<and> customer_email row = email
         \<and> client_id row = map_option pf_id ex
         \<and> map unlinked (payments w') = map unlinked (payments w @ [row])
         \<and> (ex \<noteq> None \<longrightarrow> payments w' = payments w @ [row])"
proof (cases "createCharge e (active_gateway s)")
  case (AdapterThrew err)
  then show ?thesis using assms by (simp add: charge_and_record_def Let_def)
next
  case (AdapterError msg)
  then show ?thesis using assms by (simp add: charge_and_record_def Let_def)
next
  case (Charged pr)
  note ch = this
  show ?thesis
  proof (cases "lastDigitsThrow (opt_member (Some body) ''card'')")
    case True
    then show ?thesis using assms ch by (simp add: charge_and_record_def Let_def)
  next
    case False
    note ld = this
    show ?thesis
    proof (cases "new_payment e body email s plan ex pr")
      case None
      then show ?thesis using assms ch ld by (simp add: charge_and_record_def Let_def)
    next
      case (Some row)
      note row = this
      let ?w2 = "w\<lparr>payments := payments w @ [row],
                   trace := trace w @ [GatewayCharge (active_gateway s), PaymentInserted row]\<rparr>"
      let ?w2p = "?w2\<lparr>trace := trace ?w2 @ [ProvisioningInvoked (pay_id row)]\<rparr>"
      have fields: "new_payment_id e = Some (pay_id row)" "customer_email row = email"
        "client_id row = map_option pf_id ex"
        using new_payment_fields [OF row] by simp_all
      show ?thesis
      proof (cases "opt_member (Some body) ''payment_method'' = Some (JStr ''credit_card'')
                    \<and> cr_status pr = Approved")
        case False
        then have "w' = ?w2"
          using assms ch ld row by (auto simp add: charge_and_record_def Let_def)
        then show ?thesis
          using fields by (intro exI [where x = row] exI [where x = "[]"]) simp
      next
        case True
        then have "w' = snd (provision e row plan ?w2p)"
          using assms ch ld row
          by (auto simp add: charge_and_record_def Let_def handlePaymentApproved3_def
              split: prod.splits option.splits)
        moreover obtain rest where "trace (snd (provision e row plan ?w2p)) = trace ?w2p @ rest"
          using trace_provision by blast
        moreover have "map unlinked (payments (snd (provision e row plan ?w2p)))
            = map unlinked (payments w @ [row])"
          by (simp add: provision_keeps)
        moreover have "ex \<noteq> None \<longrightarrow> payments (snd (provision e row plan ?w2p)) = payments w @ [row]"
          using fields(3) by (auto simp add: payments_provision_renewal)
        ultimately show ?thesis
          using fields
          by (intro exI [where x = row] exI [where x = "ProvisioningInvoked (pay_id row) # rest"])
            simp
      qed
    qed
  qed
qed

lemma create_success:
  assumes "fst (payment_create e (POST payload) w) = Response 200 content"
  shows "\<exists>body em s plan.
           payload = Some body
         \<and> opt_member (opt_member (Some body) ''customer'') ''email'' = Some (JStr em)
         \<and> payment_create_try e payload w =
             Inr (Response 200 content, snd (payment_create e (POST payload) w))
         \<and> payment_create_try e payload w =
             charge_and_record e body (toLowerCase e em) s plan
               (single (filter (\<lambda>r. pf_email r = Some (toLowerCase e em)) (profiles w))) w"
proof -
  consider (invalid) msg where
      "payment_create_try e payload w = Inr (Response 400 (ErrorJson msg), w)"
    | (thrown) err where "payment_create_try e payload w = Inl (err, w)"
    | (checked) body em s plan where "payload = Some body"
        "opt_member (opt_member (Some body) ''customer'') ''email'' = Some (JStr em)"
        "payment_create_try e payload w =
           charge_and_record e body (toLowerCase e em) s plan
             (single (filter (\<lambda>r. pf_email r = Some (toLowerCase e em)) (profiles w))) w"
    using create_shape [of e payload w] by blast
  then show ?thesis
  proof cases
    case invalid
    then show ?thesis using assms by (simp add: payment_create_def json_error_simps)
  next
    case thrown
    then show ?thesis using assms by (simp add: payment_create_def json_error_simps)
  next
    case checked
    have "payment_create_try e payload w =
        Inr (Response 200 content, snd (payment_create e (POST payload) w))"
      using assms
      by (cases "payment_create_try e payload w")
        (auto simp add: payment_create_def json_error_def)
    then show ?thesis using checked by blast
  qed
qed

lemma map_option_single:
  "map_option f (single xs) = (case xs of [r] \<Rightarrow> Some (f r) | _ \<Rightarrow> None)"
  by (simp add: single_def split: list.splits)

text \<open>
  C10, as the function has it. When the payment creation succeeds, the customer's email
  is a text, and the function has called the adapter and then inserted one row, whose
  \<^verbatim>\<open>customer_email\<close> is that email in lower case and whose \<^verbatim>\<open>client_id\<close> is the identifier
  of the profile with that email when there is exactly one such profile, and \<^verbatim>\<open>null\<close> when
  there is none or more than one (\<^verbatim>\<open>maybeSingle\<close> then gives no row). The table afterwards is
  the old one with that row added; a row inserted with a \<^verbatim>\<open>client_id\<close> stays as inserted, and
  a row inserted without one can differ from the inserted row only in \<^verbatim>\<open>client_id\<close>, which
  provisioning sets when a card was approved at once.
\<close>

theorem created_payment_client_id:
  assumes "fst (payment_create e (POST payload) w) = Response 200 content"
  shows "\<exists>em row rest gw.
      opt_member (requested payload ''customer'') ''email'' = Some (JStr em)
    \<and> trace (snd (payment_create e (POST payload) w))
        = trace w @ GatewayCharge gw # PaymentInserted row # rest
    \<and> new_payment_id e = Some (pay_id row)
    \<and> customer_email row = toLowerCase e em
    \<and> client_id row =
        (case filter (\<lambda>r. pf_email r = Some (toLowerCase e em)) (profiles w) of
           [r] \<Rightarrow> Some (pf_id r)
         | _ \<Rightarrow> None)
    \<and> map unlinked (payments (snd (payment_create e (POST payload) w)))
        = map unlinked (payments w @ [row])
    \<and> (client_id row \<noteq> None \<longrightarrow>
          payments (snd (payment_create e (POST payload) w)) = payments w @ [row])"
proof -
  let ?w' = "snd (payment_create e (POST payload) w)"
  obtain body em s plan where b: "payload = Some body"
    and em: "opt_member (opt_member (Some body) ''customer'') ''email'' = Some (JStr em)"
    and r: "charge_and_record e body (toLowerCase e em) s plan
              (single (filter (\<lambda>r. pf_email r = Some (toLowerCase e em)) (profiles w))) w
            = Inr (Response 200 content, ?w')"
    using create_success [OF assms] by metis
  let ?ex = "single (filter (\<lambda>r. pf_email r = Some (toLowerCase e em)) (profiles w))"
  from charge_and_record_success [OF r]
  obtain row rest where
    t: "trace ?w' = trace w @ GatewayCharge (active_gateway s) # PaymentInserted row # rest"
    and i: "new_payment_id e = Some (pay_id row)"
    and m: "customer_email row = toLowerCase e em"
    and c: "client_id row = map_option pf_id ?ex"
    and u: "map unlinked (payments ?w') = map unlinked (payments w @ [row])"
    and p: "?ex \<noteq> None \<longrightarrow> payments ?w' = payments w @ [row]"
    by blast
  have em': "opt_member (requested payload ''customer'') ''email'' = Some (JStr em)"
    using em b by (simp add: requested_def)
  have c': "client_id row =
        (case filter (\<lambda>r. pf_email r = Some (toLowerCase e em)) (profiles w) of
           [r] \<Rightarrow> Some (pf_id r)
         | _ \<Rightarrow> None)"
    using c by (simp only: map_option_single)
  have p': "client_id row \<noteq> None \<longrightarrow> payments ?w' = payments w @ [row]"
    using c p by auto
  show ?thesis
    using em' t i m c' u p'
    by (intro exI [where x = em] exI [where x = row] exI [where x = rest]
        exI [where x = "active_gateway s"]) blast
qed

lemma ex_lower: "ascii_lower ''Ana@Example.com'' = ''ana@example.com''"
  by code_simp

lemmas create_defs = payment_create_def payment_create_try_def charge_and_record_def
  new_payment_def column_uuid_def column_text_def lastDigitsThrow_def lowerEmail_def
  json_error_def gateways_def single_def own_def Let_def

text \<open>
  C10 as stated fails. Two profiles have the email \<^verbatim>\<open>ana@example.com\<close>, and a PIX payment
  is created for \<^verbatim>\<open>Ana@Example.com\<close>: the creation succeeds, and the row it inserts has no
  \<^verbatim>\<open>client_id\<close>, although a profile with the email in lower case exists.
\<close>

theorem several_profiles_give_no_client_id:
  "map pf_email (profiles ex_twins) = [Some ''ana@example.com'', Some ''ana@example.com'']
   \<and> toLowerCase ex_env ''Ana@Example.com'' = ''ana@example.com''
   \<and> fst (payment_create ex_env (POST (Some (ex_request ''pix'' ex_customer))) ex_twins)
       = Response 200 (CreatedJson ''pay-2'' Pending)
   \<and> map client_id (payments (snd (payment_create ex_env
         (POST (Some (ex_request ''pix'' ex_customer))) ex_twins)))
       = [None, None]"
  by (simp add: create_defs ex_lower ex_twins_def ex_request_def ex_customer_def ex_defs)

lemma ex_create_ok:
  "fst (payment_create ex_env (POST (Some (ex_request ''pix'' ex_customer)))
          (ex_world ''asaas'' Pending None None))
     = Response 200 (CreatedJson ''pay-2'' Pending)"
  by (simp add: create_defs ex_lower ex_request_def ex_customer_def ex_defs)

text \<open>
  A PIX payment for \<^verbatim>\<open>Ana@Example.com\<close>, whose one account has the email in lower case.
\<close>

theorem created_payment_client_id_witness:
  "\<exists>row rest gw.
      trace (snd (payment_create ex_env (POST (Some (ex_request ''pix'' ex_customer)))
                    (ex_world ''asaas'' Pending None None)))
        = GatewayCharge gw # PaymentInserted row # rest
    \<and> new_payment_id ex_env = Some (pay_id row)
    \<and> customer_email row = ''ana@example.com''
    \<and> client_id row = Some ''client-1''"
  using created_payment_client_id [OF ex_create_ok]
  by (simp add: ex_lower ex_world_def ex_profile_def ex_env_def requested_def ex_request_def
      ex_customer_def own_def) blast

end
